theory Spec2Isabelle
  imports Complex_Main
begin

section \<open>JavaScript values used by the payment controller\<close>

text \<open>
  The controller \<^verbatim>\<open>src/controllers/paymentController.js\<close> runs on Node.js. Its numbers
  are IEEE 754 binary64 values. A finite number is represented by an integer mantissa and a
  binary exponent, \<open>Finite m e\<close> standing for \<open>m * 2 ^ e\<close>; all arithmetic is integer
  arithmetic, and every rounding step is written out (\<open>binary64\<close> below). Negative zero is
  identified with zero: the controller never divides by a number, and both zeros print
  as \<^verbatim>\<open>0\<close>.
\<close>

datatype number = Finite int int | NaN | PosInfinity | NegInfinity

text \<open>Number of binary digits of a positive integer (0 for \<open>n \<le> 0\<close>).\<close>

fun bitlen :: "int \<Rightarrow> int" where
  "bitlen n = (if n \<le> 0 then 0 else 1 + bitlen (n div 2))"

text \<open>The fraction \<open>p / q\<close> divided by \<open>2 ^ e\<close>, again as a fraction of integers.\<close>

definition scale :: "int \<Rightarrow> int \<Rightarrow> int \<Rightarrow> int \<times> int" where
  "scale p q e = (if 0 \<le> e then (p, q * 2 ^ nat e) else (p * 2 ^ nat (- e), q))"

text \<open>For \<open>p, q > 0\<close>: the integer \<open>k\<close> with \<open>2 ^ k \<le> p / q < 2 ^ (k + 1)\<close>.\<close>

definition floor_log2 :: "int \<Rightarrow> int \<Rightarrow> int" where
  "floor_log2 p q =
     (let k = bitlen p - bitlen q
      in case scale p q k of (n, d) \<Rightarrow> if d \<le> n then k else k - 1)"

text \<open>The integer nearest to \<open>n / d\<close>, ties to the even one.\<close>

definition round_half_even :: "int \<Rightarrow> int \<Rightarrow> int" where
  "round_half_even n d =
     (let f = n div d; r = n mod d
      in if 2 * r < d then f else if d < 2 * r then f + 1
         else if even f then f else f + 1)"

text \<open>
  Round-to-nearest-even conversion of the non-negative fraction \<open>p / q\<close> (with sign \<open>neg\<close>)
  to binary64: 53 significant bits, exponent of the last place not below \<open>-1074\<close>
  (subnormal numbers), overflow to infinity from \<open>2 ^ 1024\<close> on.
\<close>

definition binary64 :: "bool \<Rightarrow> int \<Rightarrow> int \<Rightarrow> number" where
  "binary64 neg p q =
     (if p = 0 then Finite 0 0
      else let e = max (floor_log2 p q) (- 1022) - 52;
               m = (case scale p q e of (n, d) \<Rightarrow> round_half_even n d)
           in if 971 < e \<or> (e = 971 \<and> 2 ^ 53 \<le> m)
              then (if neg then NegInfinity else PosInfinity)
              else Finite (if neg then - m else m) e)"

text \<open>The product of two numbers (\<^verbatim>\<open>x * y\<close>): the exact product, rounded once.\<close>

fun times_number :: "number \<Rightarrow> number \<Rightarrow> number" where
  "times_number (Finite m1 e1) (Finite m2 e2) =
     (case scale \<bar>m1 * m2\<bar> 1 (- (e1 + e2)) of (p, q) \<Rightarrow> binary64 (m1 * m2 < 0) p q)"
| "times_number NaN _ = NaN"
| "times_number _ NaN = NaN"
| "times_number (Finite m e) PosInfinity =
     (if m = 0 then NaN else if m < 0 then NegInfinity else PosInfinity)"
| "times_number (Finite m e) NegInfinity =
     (if m = 0 then NaN else if m < 0 then PosInfinity else NegInfinity)"
| "times_number PosInfinity (Finite m e) =
     (if m = 0 then NaN else if m < 0 then NegInfinity else PosInfinity)"
| "times_number NegInfinity (Finite m e) =
     (if m = 0 then NaN else if m < 0 then PosInfinity else NegInfinity)"
| "times_number PosInfinity PosInfinity = PosInfinity"
| "times_number PosInfinity NegInfinity = NegInfinity"
| "times_number NegInfinity PosInfinity = NegInfinity"
| "times_number NegInfinity NegInfinity = PosInfinity"

text \<open>The number with the integer value \<open>n\<close> (exact for \<open>\<bar>n\<bar> \<le> 2 ^ 53\<close>).\<close>

definition number_of_int :: "int \<Rightarrow> number" where
  "number_of_int n = binary64 (n < 0) \<bar>n\<bar> 1"

text \<open>\<^verbatim>\<open>Math.floor\<close>: the floor of a binary64 value is representable, so no rounding occurs.\<close>

fun Math_floor :: "number \<Rightarrow> number" where
  "Math_floor (Finite m e) =
     (if 0 \<le> e then Finite m e else number_of_int (m div 2 ^ nat (- e)))"
| "Math_floor x = x"

text \<open>The integer value of a number, when it has one.\<close>

fun integer_value :: "number \<Rightarrow> int option" where
  "integer_value (Finite m e) =
     (if 0 \<le> e then Some (m * 2 ^ nat e)
      else if m mod 2 ^ nat (- e) = 0 then Some (m div 2 ^ nat (- e)) else None)"
| "integer_value _ = None"

text \<open>
  The values a parsed JSON request body can hold, plus \<^verbatim>\<open>undefined\<close> for an absent
  field.
\<close>

datatype jsvalue =
    JUndefined
  | JNull
  | JBoolean bool
  | JNumber number
  | JString string
  | JArray "jsvalue list"
  | JObject "(string \<times> jsvalue) list"

text \<open>Truthiness, as \<^verbatim>\<open>!x\<close> and \<^verbatim>\<open>if (x)\<close> and \<^verbatim>\<open>x || y\<close> test it.\<close>

fun truthy :: "jsvalue \<Rightarrow> bool" where
  "truthy JUndefined = False"
| "truthy JNull = False"
| "truthy (JBoolean b) = b"
| "truthy (JNumber (Finite m e)) = (m \<noteq> 0)"
| "truthy (JNumber NaN) = False"
| "truthy (JNumber _) = True"
| "truthy (JString s) = (s \<noteq> [])"
| "truthy (JArray _) = True"
| "truthy (JObject _) = True"

text \<open>
  String-valued request fields and document fields that may be absent or \<^verbatim>\<open>null\<close> are
  \<open>string option\<close>; such a field is truthy when it holds a non-empty string.
\<close>

definition str :: "string option \<Rightarrow> string" where
  "str x = (case x of None \<Rightarrow> [] | Some s \<Rightarrow> s)"

definition present :: "string option \<Rightarrow> bool" where
  "present x = (str x \<noteq> [])"

section \<open>Runtime and configuration\<close>

text \<open>
  What the controller takes from outside the repository is a parameter of the model:
  \<^item> \<open>hmac_sha256 key message\<close>, the raw digest of Node's
    \<^verbatim>\<open>crypto.createHmac('sha256', key).update(message)\<close>;
  \<^item> \<open>shortest_decimal m e\<close>, the result of \<^verbatim>\<open>Number.prototype.toString\<close> on the finite
    number \<open>m * 2 ^ e\<close> when it is not an integer below \<open>2 ^ 53\<close> (those are printed by
    \<open>decimal\<close> below);
  \<^item> \<open>env_MERCHANT_SECRET\<close>, the environment variable \<^verbatim>\<open>MERCHANT_SECRET\<close>;
  \<^item> \<open>MERCHANT_UPI\<close>, the receiving handle: the constant
    \<^verbatim>\<open>'mstandwafuelcentre@sbi'\<close> in the first version of the controller, the value of
    \<^verbatim>\<open>settings.merchantUPI\<close> in the second.
\<close>

record runtime =
  hmac_sha256 :: "string \<Rightarrow> string \<Rightarrow> string"
  shortest_decimal :: "int \<Rightarrow> int \<Rightarrow> string"
  env_MERCHANT_SECRET :: "string option"
  MERCHANT_UPI :: string

text \<open>\<^verbatim>\<open>const MERCHANT_SECRET = process.env.MERCHANT_SECRET || 'my_super_secret_key'\<close>\<close>

definition MERCHANT_SECRET :: "('a runtime_scheme) \<Rightarrow> string" where
  "MERCHANT_SECRET rt =
     (if present (env_MERCHANT_SECRET rt) then str (env_MERCHANT_SECRET rt)
      else ''my_super_secret_key'')"

text \<open>\<^verbatim>\<open>.digest('hex')\<close>: two lower-case hexadecimal digits per byte.\<close>

definition hex_digit :: "nat \<Rightarrow> char" where
  "hex_digit n = ''0123456789abcdef'' ! (n mod 16)"

definition hex :: "string \<Rightarrow> string" where
  "hex bytes = concat (map (\<lambda>c. [hex_digit (of_char c div 16), hex_digit (of_char c)]) bytes)"

definition createSignature :: "('a runtime_scheme) \<Rightarrow> string \<Rightarrow> string" where
  "createSignature rt payload = hex (hmac_sha256 rt (MERCHANT_SECRET rt) payload)"

section \<open>Documents and the store\<close>

text \<open>
  The Mongoose models \<^verbatim>\<open>Transaction\<close> and \<^verbatim>\<open>Order\<close> are imported by the controller
  but their schemas are not part of the sources. The records below hold the fields the
  controller reads and writes. Dates are milliseconds since the epoch.
\<close>

record transaction =
  tid :: string
  userId :: "string option"
  orderId :: "string option"
  amount :: number
  payType :: string
  upi :: string
  status :: string
  payload :: string
  signature :: string
  redirectUrl :: string
  "note" :: string
  expires :: int
  createdAt :: int
  completedAt :: "int option"

record order =
  paymentStatus :: string
  status :: string

datatype save_call = Transaction_save string | Order_save string

text \<open>
  Modelled from the spec: the persistence layer behind the two Mongoose models, which the
  spec treats as an abstract durable document store that persists whatever the controller
  saves (the status is an open string). \<open>transactions\<close> is the collection in insertion
  order, \<open>orders\<close> maps an order id to its document, and \<open>saves\<close> records every call of
  \<^verbatim>\<open>save()\<close> in the order they are made. Store calls always succeed here: a call that
  throws is answered 500 by the \<^verbatim>\<open>catch\<close> block of the handler and lies outside the model.
\<close>

record store =
  transactions :: "transaction list"
  orders :: "string \<rightharpoonup> order"
  saves :: "save_call list"

text \<open>\<^verbatim>\<open>Transaction.findOne({ tid })\<close>: the first document with this tid.\<close>

definition findOne :: "transaction list \<Rightarrow> string \<Rightarrow> transaction option" where
  "findOne ts t = find (\<lambda>d. tid d = t) ts"

text \<open>
  \<^verbatim>\<open>transaction.save()\<close> on a document obtained from \<open>findOne\<close>: the document found, the
  first one with its tid, is replaced by the modified copy.
\<close>

fun replace_first :: "transaction \<Rightarrow> transaction list \<Rightarrow> transaction list" where
  "replace_first t [] = []"
| "replace_first t (d # ds) = (if tid d = tid t then t # ds else d # replace_first t ds)"

definition save_transaction :: "transaction \<Rightarrow> store \<Rightarrow> store" where
  "save_transaction t s =
     s\<lparr>transactions := replace_first t (transactions s),
       saves := saves s @ [Transaction_save (tid t)]\<rparr>"

text \<open>\<^verbatim>\<open>new Transaction({...}).save()\<close>: a new document is appended.\<close>

definition insert_transaction :: "transaction \<Rightarrow> store \<Rightarrow> store" where
  "insert_transaction t s =
     s\<lparr>transactions := transactions s @ [t],
       saves := saves s @ [Transaction_save (tid t)]\<rparr>"

definition save_order :: "string \<Rightarrow> order \<Rightarrow> store \<Rightarrow> store" where
  "save_order oid ord s =
     s\<lparr>orders := (orders s)(oid \<mapsto> ord), saves := saves s @ [Order_save oid]\<rparr>"

section \<open>Results\<close>

datatype error =
    TransactionIdRequired
  | TidAndStatusRequired
  | TransactionNotFound
  | InvalidSignature
  | AlreadyProcessed string
  | InvalidPayload
  | UnsupportedPaymentType
  | FailedToCreatePayment

text \<open>The HTTP status and the \<^verbatim>\<open>error\<close> field of the JSON body of each failure.\<close>

fun http_status :: "error \<Rightarrow> nat" where
  "http_status TransactionNotFound = 404"
| "http_status FailedToCreatePayment = 500"
| "http_status _ = 400"

fun error_text :: "error \<Rightarrow> string" where
  "error_text TransactionIdRequired = ''Transaction ID is required''"
| "error_text TidAndStatusRequired = ''Transaction ID and status are required''"
| "error_text TransactionNotFound = ''Transaction not found''"
| "error_text InvalidSignature = ''Invalid signature''"
| "error_text (AlreadyProcessed st) = ''Transaction already '' @ st"
| "error_text InvalidPayload = ''Invalid payload''"
| "error_text UnsupportedPaymentType = ''Unsupported payment type''"
| "error_text FailedToCreatePayment = ''Failed to create payment''"

record status_response =
  sr_tid :: string
  sr_status :: string
  sr_amount :: number
  sr_payType :: string
  sr_upi :: string
  sr_createdAt :: int
  sr_completedAt :: "int option"

record verify_response =
  vr_success :: bool
  vr_message :: string
  vr_tid :: string
  vr_status :: string
  vr_amount :: number

section \<open>checkPaymentStatus and verifyPayment\<close>

text \<open>
  \<^verbatim>\<open>checkPaymentStatus\<close> (GET \<^verbatim>\<open>/api/payment/status/:tid\<close>). \<open>now\<close> is the value of
  \<^verbatim>\<open>new Date()\<close> at the expiry test. The function returns the response together with
  the store it leaves behind.
\<close>

definition checkPaymentStatus ::
  "int \<Rightarrow> string option \<Rightarrow> store \<Rightarrow> (error + status_response) \<times> store" where
  "checkPaymentStatus now tid_param s =
     (if \<not> present tid_param then (Inl TransactionIdRequired, s)
      else case findOne (transactions s) (str tid_param) of
        None \<Rightarrow> (Inl TransactionNotFound, s)
      | Some t \<Rightarrow>
          let (t', s') =
                (if transaction.status t = ''pending'' \<and> expires t < now
                 then (t\<lparr>transaction.status := ''expired''\<rparr>,
                       save_transaction (t\<lparr>transaction.status := ''expired''\<rparr>) s)
                 else (t, s))
          in (Inr \<lparr>sr_tid = tid t', sr_status = transaction.status t',
                    sr_amount = amount t', sr_payType = payType t', sr_upi = upi t',
                    sr_createdAt = createdAt t', sr_completedAt = completedAt t'\<rparr>, s'))"

text \<open>
  The update of the order in \<^verbatim>\<open>verifyPayment\<close>: \<^verbatim>\<open>'success'\<close> and \<^verbatim>\<open>'failed'\<close> set
  two fields, any other status leaves the document as it was read.
\<close>

definition reconcile :: "string \<Rightarrow> order \<Rightarrow> order" where
  "reconcile st ord =
     (if st = ''success'' then ord\<lparr>paymentStatus := ''paid'', order.status := ''confirmed''\<rparr>
      else if st = ''failed'' then ord\<lparr>paymentStatus := ''failed'', order.status := ''cancelled''\<rparr>
      else ord)"

text \<open>
  \<^verbatim>\<open>verifyPayment\<close> (POST \<^verbatim>\<open>/api/payment/verify\<close>) with the body fields \<open>tid\<close>,
  \<open>status\<close> and \<open>signature\<close>; \<open>now\<close> is the value of \<^verbatim>\<open>new Date()\<close> stored in
  \<^verbatim>\<open>completedAt\<close>.
\<close>

definition verifyPayment ::
  "('a runtime_scheme) \<Rightarrow> int \<Rightarrow> string option \<Rightarrow> string option \<Rightarrow> string option \<Rightarrow> store
     \<Rightarrow> (error + verify_response) \<times> store" where
  "verifyPayment rt now tid_field status_field signature_field s =
     (if \<not> present tid_field \<or> \<not> present status_field then (Inl TidAndStatusRequired, s)
      else case findOne (transactions s) (str tid_field) of
        None \<Rightarrow> (Inl TransactionNotFound, s)
      | Some t \<Rightarrow>
          if present signature_field
             \<and> str signature_field \<noteq> createSignature rt (payload t)
          then (Inl InvalidSignature, s)
          else if transaction.status t \<noteq> ''pending''
          then (Inl (AlreadyProcessed (transaction.status t)), s)
          else
            let t' = t\<lparr>transaction.status := str status_field, completedAt := Some now\<rparr>;
                s1 = save_transaction t' s;
                s2 = (if present (orderId t')
                      then (case orders s1 (str (orderId t')) of
                              None \<Rightarrow> s1
                            | Some ord \<Rightarrow>
                                save_order (str (orderId t'))
                                  (reconcile (str status_field) ord) s1)
                      else s1)
            in (Inr \<lparr>vr_success = True,
                      vr_message = ''Payment '' @ str status_field,
                      vr_tid = tid t',
                      vr_status = transaction.status t',
                      vr_amount = amount t'\<rparr>, s2))"

section \<open>Strings\<close>

text \<open>
  A string is the list of the bytes of its UTF-8 encoding, which is what the request body
  carries and what \<^verbatim>\<open>Buffer.from\<close>, \<^verbatim>\<open>encodeURIComponent\<close> and \<^verbatim>\<open>URLSearchParams\<close>
  work on. Strings are well-formed UTF-8: a JavaScript string with an unpaired surrogate
  has no such encoding and is not represented.
\<close>

definition code :: "char \<Rightarrow> nat" where
  "code c = of_char c"

text \<open>
  The characters of a string: a byte below \<^verbatim>\<open>0xC0\<close> stands alone, a lead byte below
  \<^verbatim>\<open>0xE0\<close> takes one continuation byte, one below \<^verbatim>\<open>0xF0\<close> two, any other three.
\<close>

definition utf8_length :: "char \<Rightarrow> nat" where
  "utf8_length c =
     (if code c < 192 then 1 else if code c < 224 then 2 else if code c < 240 then 3 else 4)"

fun utf8_chars :: "string \<Rightarrow> string list" where
  "utf8_chars [] = []"
| "utf8_chars (c # cs) =
     (c # take (utf8_length c - 1) cs) # utf8_chars (drop (utf8_length c - 1) cs)"

text \<open>The code point a character encodes.\<close>

definition code_point :: "string \<Rightarrow> nat" where
  "code_point u =
     (case map code u of
        [a] \<Rightarrow> a
      | [a, b] \<Rightarrow> (a - 192) * 64 + (b - 128)
      | [a, b, c] \<Rightarrow> (a - 224) * 4096 + (b - 128) * 64 + (c - 128)
      | [a, b, c, d] \<Rightarrow> (a - 240) * 262144 + (b - 128) * 4096 + (c - 128) * 64 + (d - 128)
      | _ \<Rightarrow> 0)"

text \<open>
  The white space and line terminator code points of ECMAScript, which
  \<^verbatim>\<open>String.prototype.trim\<close> strips and \<^verbatim>\<open>parseFloat\<close> skips: U+0009 to U+000D, U+0020,
  U+00A0, U+1680, U+2000 to U+200A, U+2028, U+2029, U+202F, U+205F, U+3000 and U+FEFF.
\<close>

definition is_white_space :: "nat \<Rightarrow> bool" where
  "is_white_space n =
     ((9 \<le> n \<and> n \<le> 13) \<or> n = 32 \<or> n = 160 \<or> n = 5760 \<or> (8192 \<le> n \<and> n \<le> 8202)
      \<or> n = 8232 \<or> n = 8233 \<or> n = 8239 \<or> n = 8287 \<or> n = 12288 \<or> n = 65279)"

definition white :: "string \<Rightarrow> bool" where
  "white u = is_white_space (code_point u)"

text \<open>The string without its leading white space.\<close>

definition trimStart :: "string \<Rightarrow> string" where
  "trimStart s = concat (dropWhile white (utf8_chars s))"

definition is_digit :: "char \<Rightarrow> bool" where
  "is_digit c = (48 \<le> code c \<and> code c \<le> 57)"

definition is_upper :: "char \<Rightarrow> bool" where
  "is_upper c = (65 \<le> code c \<and> code c \<le> 90)"

definition is_lower :: "char \<Rightarrow> bool" where
  "is_lower c = (97 \<le> code c \<and> code c \<le> 122)"

definition is_alnum :: "char \<Rightarrow> bool" where
  "is_alnum c = (is_digit c \<or> is_upper c \<or> is_lower c)"

text \<open>
  \<^verbatim>\<open>toLowerCase\<close> on the letters A to Z; other characters are kept. The controller only
  asks whether the lower-cased, trimmed string is \<^verbatim>\<open>phonepe\<close> or \<^verbatim>\<open>paytm\<close>, and keeps
  it only if it is. A character outside ASCII does not change that answer: it is white
  space, which has no other case, or its lower-case form contains a character outside
  ASCII that is not white space, except for the Kelvin sign U+212A, whose lower-case form
  \<^verbatim>\<open>k\<close> occurs in neither name.
\<close>

definition toLowerCase :: "string \<Rightarrow> string" where
  "toLowerCase s =
     map (\<lambda>c. if is_upper c then ''abcdefghijklmnopqrstuvwxyz'' ! (code c - 65) else c) s"

text \<open>\<^verbatim>\<open>trim\<close>: the string without its leading and trailing white space.\<close>

definition trim :: "string \<Rightarrow> string" where
  "trim s = concat (rev (dropWhile white (rev (dropWhile white (utf8_chars s)))))"

fun join :: "string \<Rightarrow> string list \<Rightarrow> string" where
  "join sep [] = []"
| "join sep [x] = x"
| "join sep (x # y # ys) = x @ sep @ join sep (y # ys)"

text \<open>\<^verbatim>\<open>s.substring(i, j)\<close> for \<open>i \<le> j\<close>.\<close>

definition substring :: "nat \<Rightarrow> nat \<Rightarrow> string \<Rightarrow> string" where
  "substring i j s = take (j - i) (drop i s)"

text \<open>The digits of a non-negative integer in radix \<open>b\<close> (\<open>2 \<le> b \<le> 36\<close>).\<close>

definition digit_char :: "int \<Rightarrow> char" where
  "digit_char n = ''0123456789abcdefghijklmnopqrstuvwxyz'' ! nat n"

function digits_of :: "int \<Rightarrow> int \<Rightarrow> string" where
  "digits_of b n =
     (if n < b \<or> b < 2 then [digit_char n] else digits_of b (n div b) @ [digit_char (n mod b)])"
  by pat_completeness auto
termination
  by (relation "measure (\<lambda>(b, n). nat n)") (auto simp: int_div_less_self)

definition decimal :: "int \<Rightarrow> string" where
  "decimal n = (if n < 0 then ''-'' @ digits_of 10 (- n) else digits_of 10 n)"

text \<open>\<^verbatim>\<open>n.toString(36)\<close> for an integer \<open>n\<close>.\<close>

definition toString36 :: "int \<Rightarrow> string" where
  "toString36 n = (if n < 0 then ''-'' @ digits_of 36 (- n) else digits_of 36 n)"

text \<open>
  \<^verbatim>\<open>Number.prototype.toString\<close>, also used by template literals, \<^verbatim>\<open>URLSearchParams\<close>
  and \<^verbatim>\<open>JSON.stringify\<close>: an integer below \<open>2 ^ 53\<close> prints as its decimal digits; every
  other finite number is left to the runtime.
\<close>

definition Number_toString :: "('a runtime_scheme) \<Rightarrow> number \<Rightarrow> string" where
  "Number_toString rt x =
     (case x of
        NaN \<Rightarrow> ''NaN''
      | PosInfinity \<Rightarrow> ''Infinity''
      | NegInfinity \<Rightarrow> ''-Infinity''
      | Finite m e \<Rightarrow>
          (case integer_value (Finite m e) of
             Some n \<Rightarrow> if \<bar>n\<bar> < 2 ^ 53 then decimal n else shortest_decimal rt m e
           | None \<Rightarrow> shortest_decimal rt m e))"

text \<open>Percent-encoding of one byte, with upper-case hexadecimal digits.\<close>

definition upper_hex_digit :: "nat \<Rightarrow> char" where
  "upper_hex_digit n = ''0123456789ABCDEF'' ! (n mod 16)"

definition percent :: "char \<Rightarrow> string" where
  "percent c = [CHR ''%'', upper_hex_digit (code c div 16), upper_hex_digit (code c)]"

text \<open>
  \<^verbatim>\<open>encodeURIComponent\<close>: letters, digits and \<^verbatim>\<open>- _ . ! ~ * ' ( )\<close> are kept, every other
  byte is percent-encoded.
\<close>

definition encodeURIComponent :: "string \<Rightarrow> string" where
  "encodeURIComponent s =
     concat (map (\<lambda>c. if is_alnum c \<or> c \<in> set ''-_.!~*()'' \<or> c = CHR 0x27 then [c]
                       else percent c) s)"

text \<open>
  The \<^verbatim>\<open>application/x-www-form-urlencoded\<close> serialisation used by
  \<^verbatim>\<open>URLSearchParams.prototype.toString\<close>: a space becomes \<^verbatim>\<open>+\<close>, letters, digits and
  \<^verbatim>\<open>* - . _\<close> are kept, every other byte is percent-encoded; the pairs are written
  \<^verbatim>\<open>name=value\<close> in order and joined by \<^verbatim>\<open>&\<close>.
\<close>

definition form_urlencode :: "string \<Rightarrow> string" where
  "form_urlencode s =
     concat (map (\<lambda>c. if c = CHR '' '' then ''+''
                       else if is_alnum c \<or> c \<in> set ''*-._'' then [c]
                       else percent c) s)"

definition URLSearchParams_toString :: "(string \<times> string) list \<Rightarrow> string" where
  "URLSearchParams_toString ps =
     join ''&'' (map (\<lambda>(k, v). form_urlencode k @ ''='' @ form_urlencode v) ps)"

text \<open>\<^verbatim>\<open>Buffer.from(s).toString('base64')\<close>\<close>

definition b64_char :: "nat \<Rightarrow> char" where
  "b64_char n =
     ''ABCDEFGHIJKLMNOPQRSTUVWXYZabcdefghijklmnopqrstuvwxyz0123456789+/'' ! n"

fun base64 :: "string \<Rightarrow> string" where
  "base64 [] = []"
| "base64 [a] =
     [b64_char (code a div 4), b64_char (code a mod 4 * 16), CHR ''='', CHR ''='']"
| "base64 [a, b] =
     [b64_char (code a div 4), b64_char (code a mod 4 * 16 + code b div 16),
      b64_char (code b mod 16 * 4), CHR ''='']"
| "base64 (a # b # c # rest) =
     [b64_char (code a div 4), b64_char (code a mod 4 * 16 + code b div 16),
      b64_char (code b mod 16 * 4 + code c div 64), b64_char (code c mod 64)] @ base64 rest"

text \<open>
  \<^verbatim>\<open>JSON.stringify\<close>. A string is quoted with the escapes of the ECMAScript
  \<^verbatim>\<open>QuoteJSONString\<close>; a number that is not finite prints as \<^verbatim>\<open>null\<close>; a property whose
  value is \<^verbatim>\<open>undefined\<close> is omitted, an array element that is \<^verbatim>\<open>undefined\<close> prints as
  \<^verbatim>\<open>null\<close>. (At top level \<^verbatim>\<open>JSON.stringify(undefined)\<close> is not a string; the controller
  only serialises object literals.)
\<close>

definition json_escape :: "char \<Rightarrow> string" where
  "json_escape c =
     (if c = CHR 0x22 then [CHR 0x5C, CHR 0x22]
      else if c = CHR 0x5C then [CHR 0x5C, CHR 0x5C]
      else if code c = 8 then [CHR 0x5C, CHR ''b'']
      else if code c = 9 then [CHR 0x5C, CHR ''t'']
      else if code c = 10 then [CHR 0x5C, CHR ''n'']
      else if code c = 12 then [CHR 0x5C, CHR ''f'']
      else if code c = 13 then [CHR 0x5C, CHR ''r'']
      else if code c < 32
      then [CHR 0x5C, CHR ''u'', CHR ''0'', CHR ''0'', hex_digit (code c div 16), hex_digit (code c)]
      else [c])"

definition quote :: "string \<Rightarrow> string" where
  "quote s = [CHR 0x22] @ concat (map json_escape s) @ [CHR 0x22]"

fun JSON_stringify :: "('a runtime_scheme) \<Rightarrow> jsvalue \<Rightarrow> string"
  and JSON_elements :: "('a runtime_scheme) \<Rightarrow> jsvalue list \<Rightarrow> string list"
  and JSON_properties :: "('a runtime_scheme) \<Rightarrow> (string \<times> jsvalue) list \<Rightarrow> string list" where
  "JSON_stringify rt JUndefined = ''null''"
| "JSON_stringify rt JNull = ''null''"
| "JSON_stringify rt (JBoolean b) = (if b then ''true'' else ''false'')"
| "JSON_stringify rt (JNumber x) =
     (case x of Finite m e \<Rightarrow> Number_toString rt x | _ \<Rightarrow> ''null'')"
| "JSON_stringify rt (JString s) = quote s"
| "JSON_stringify rt (JArray xs) = ''['' @ join '','' (JSON_elements rt xs) @ '']''"
| "JSON_stringify rt (JObject ps) = ''{'' @ join '','' (JSON_properties rt ps) @ ''}''"
| "JSON_elements rt [] = []"
| "JSON_elements rt (x # xs) = JSON_stringify rt x # JSON_elements rt xs"
| "JSON_properties rt [] = []"
| "JSON_properties rt ((k, v) # ps) =
     (if v = JUndefined then JSON_properties rt ps
      else (quote k @ '':'' @ JSON_stringify rt v) # JSON_properties rt ps)"

section \<open>Arithmetic and parseFloat\<close>

text \<open>The sum of two numbers (\<^verbatim>\<open>x + y\<close>): the exact sum, rounded once.\<close>

fun plus_number :: "number \<Rightarrow> number \<Rightarrow> number" where
  "plus_number (Finite m1 e1) (Finite m2 e2) =
     (let e = min e1 e2; m = m1 * 2 ^ nat (e1 - e) + m2 * 2 ^ nat (e2 - e)
      in case scale \<bar>m\<bar> 1 (- e) of (p, q) \<Rightarrow> binary64 (m < 0) p q)"
| "plus_number NaN _ = NaN"
| "plus_number _ NaN = NaN"
| "plus_number PosInfinity NegInfinity = NaN"
| "plus_number NegInfinity PosInfinity = NaN"
| "plus_number PosInfinity _ = PosInfinity"
| "plus_number _ PosInfinity = PosInfinity"
| "plus_number NegInfinity _ = NegInfinity"
| "plus_number _ NegInfinity = NegInfinity"

definition digits_value :: "string \<Rightarrow> int" where
  "digits_value ds = foldl (\<lambda>a c. 10 * a + (int (code c) - 48)) 0 ds"

text \<open>An optional sign: whether it is \<^verbatim>\<open>-\<close>, and the rest of the string.\<close>

fun sign_prefix :: "string \<Rightarrow> bool \<times> string" where
  "sign_prefix [] = (False, [])"
| "sign_prefix (c # cs) =
     (if c = CHR ''-'' then (True, cs) else if c = CHR ''+'' then (False, cs)
      else (False, c # cs))"

text \<open>The value of an exponent part \<^verbatim>\<open>e[+-]digits\<close> at the head of the string, else 0.\<close>

fun exponent_part :: "string \<Rightarrow> int" where
  "exponent_part [] = 0"
| "exponent_part (c # cs) =
     (if c = CHR ''e'' \<or> c = CHR ''E''
      then (case sign_prefix cs of (neg, r) \<Rightarrow>
              let ds = takeWhile is_digit r
              in if ds = [] then 0 else if neg then - digits_value ds else digits_value ds)
      else 0)"

text \<open>
  \<^verbatim>\<open>parseFloat\<close> on a string: leading white space is skipped, the longest prefix that is
  a decimal literal (or \<^verbatim>\<open>Infinity\<close>) is read and converted to the nearest binary64
  value; \<^verbatim>\<open>NaN\<close> when there is no such prefix.
\<close>

definition parseFloat_string :: "string \<Rightarrow> number" where
  "parseFloat_string s =
     (case sign_prefix (trimStart s) of (neg, r) \<Rightarrow>
        if take 8 r = ''Infinity'' then (if neg then NegInfinity else PosInfinity)
        else
          let ip = takeWhile is_digit r;
              r1 = dropWhile is_digit r;
              fp = (case r1 of [] \<Rightarrow> []
                    | c # cs \<Rightarrow> if c = CHR ''.'' then takeWhile is_digit cs else []);
              r2 = (case r1 of [] \<Rightarrow> []
                    | c # cs \<Rightarrow> if c = CHR ''.'' then dropWhile is_digit cs else r1)
          in if ip = [] \<and> fp = [] then NaN
             else let k = exponent_part r2 - int (length fp)
                  in if 0 \<le> k then binary64 neg (digits_value (ip @ fp) * 10 ^ nat k) 1
                     else binary64 neg (digits_value (ip @ fp)) (10 ^ nat (- k)))"

text \<open>
  The string conversion \<^verbatim>\<open>parseFloat\<close> applies to an argument that is not a string;
  \<open>None\<close> when it throws a \<^verbatim>\<open>TypeError\<close>. An array prints its elements separated by
  commas, \<^verbatim>\<open>null\<close> and \<^verbatim>\<open>undefined\<close> elements as nothing. Any other object of a parsed
  JSON body is a plain object. The conversion looks up its \<^verbatim>\<open>toString\<close> and then its
  \<^verbatim>\<open>valueOf\<close>: without a property \<^verbatim>\<open>toString\<close> of its own the object inherits
  \<^verbatim>\<open>Object.prototype.toString\<close> and prints as \<^verbatim>\<open>[object Object]\<close>; with one, whose
  value (a JSON value) cannot be called, \<^verbatim>\<open>valueOf\<close> is tried, which either is a JSON
  value too or is the inherited one and returns the object itself, so no primitive value
  is found and the conversion throws.
\<close>

fun ToString :: "('a runtime_scheme) \<Rightarrow> jsvalue \<Rightarrow> string option"
  and ToString_elements :: "('a runtime_scheme) \<Rightarrow> jsvalue list \<Rightarrow> string list option" where
  "ToString rt JUndefined = Some ''undefined''"
| "ToString rt JNull = Some ''null''"
| "ToString rt (JBoolean b) = Some (if b then ''true'' else ''false'')"
| "ToString rt (JNumber x) = Some (Number_toString rt x)"
| "ToString rt (JString s) = Some s"
| "ToString rt (JArray xs) = map_option (join '','') (ToString_elements rt xs)"
| "ToString rt (JObject ps) =
     (if ''toString'' \<in> set (map fst ps) then None else Some ''[object Object]'')"
| "ToString_elements rt [] = Some []"
| "ToString_elements rt (x # xs) =
     (case (if x = JUndefined \<or> x = JNull then Some [] else ToString rt x) of
        None \<Rightarrow> None
      | Some u \<Rightarrow> map_option ((#) u) (ToString_elements rt xs))"

text \<open>
  \<^verbatim>\<open>parseFloat(v)\<close>; \<open>None\<close> when the string conversion of \<open>v\<close> throws. A number
  prints and parses back to itself, so it is returned as it is.
\<close>

definition parseFloat :: "('a runtime_scheme) \<Rightarrow> jsvalue \<Rightarrow> number option" where
  "parseFloat rt v =
     (case v of JNumber x \<Rightarrow> Some x | _ \<Rightarrow> map_option parseFloat_string (ToString rt v))"

section \<open>createPayment\<close>

text \<open>
  What one call of \<^verbatim>\<open>createPayment\<close> reads from the clock and the random number
  generator: \<^verbatim>\<open>Date.now()\<close> and \<^verbatim>\<open>Math.random().toString(36)\<close> in
  \<^verbatim>\<open>generateTransactionId\<close>, \<^verbatim>\<open>Date.now()\<close> for the expiry, \<^verbatim>\<open>Math.random()\<close> in
  \<^verbatim>\<open>generateNote\<close>, and the time at which the document is saved.
\<close>

record draws =
  now_tid :: int
  random_tid :: string
  now_expires :: int
  random_note :: number
  now_save :: int

definition generateTransactionId :: "draws \<Rightarrow> string" where
  "generateTransactionId d = ''cw'' @ toString36 (now_tid d) @ substring 2 15 (random_tid d)"

definition generateNote :: "('a runtime_scheme) \<Rightarrow> draws \<Rightarrow> string" where
  "generateNote rt d =
     ''s'' @ Number_toString rt
       (plus_number (Math_floor (times_number (random_note d) (Finite 900 0))) (Finite 100 0))"

text \<open>\<^verbatim>\<open>Math.floor(paymentAmount * 100)\<close>, commented \<^verbatim>\<open>// Convert to paise\<close>.\<close>

definition initialAmount :: "number \<Rightarrow> number" where
  "initialAmount paymentAmount = Math_floor (times_number paymentAmount (Finite 100 0))"

definition phonepe_payloadJson :: "string \<Rightarrow> string \<Rightarrow> number \<Rightarrow> jsvalue" where
  "phonepe_payloadJson merchant_upi note_text paymentAmount =
     JObject
       [(''contact'', JObject
           [(''cbsName'', JString []), (''nickName'', JString []),
            (''vpa'', JString merchant_upi), (''type'', JString ''VPA'')]),
        (''p2pPaymentCheckoutParams'', JObject
           [(''note'', JString note_text),
            (''isByDefaultKnownContact'', JBoolean True),
            (''initialAmount'', JNumber (initialAmount paymentAmount)),
            (''currency'', JString ''INR''),
            (''checkoutType'', JString ''DEFAULT''),
            (''transactionContext'', JString ''p2p'')])]"

definition paytm_queryParams ::
  "('a runtime_scheme) \<Rightarrow> string \<Rightarrow> number \<Rightarrow> string \<Rightarrow> (string \<times> string) list" where
  "paytm_queryParams rt merchant_upi paymentAmount note_text =
     [(''pa'', merchant_upi), (''am'', Number_toString rt paymentAmount), (''tn'', note_text),
      (''pn'', merchant_upi), (''mc'', []), (''cu'', ''INR''), (''url'', []),
      (''mode'', []), (''purpose'', []), (''orgid'', []), (''sign'', []),
      (''featuretype'', ''money_transfer'')]"

text \<open>
  The two branches of \<^verbatim>\<open>createPayment\<close>: each yields \<^verbatim>\<open>redirectUrl\<close>,
  \<^verbatim>\<open>payloadB64\<close> and \<^verbatim>\<open>signature\<close>.
\<close>

definition phonepe_branch ::
  "('a runtime_scheme) \<Rightarrow> string \<Rightarrow> number \<Rightarrow> string \<times> string \<times> string" where
  "phonepe_branch rt note_text paymentAmount =
     (let payloadStr =
            JSON_stringify rt (phonepe_payloadJson (MERCHANT_UPI rt) note_text paymentAmount);
          payloadB64 = base64 payloadStr;
          sig = createSignature rt payloadB64;
          payloadUrlenc = encodeURIComponent payloadB64
      in (''phonepe://native?data='' @ payloadUrlenc @ ''&id=p2ppayment'', payloadB64, sig))"

definition paytm_branch ::
  "('a runtime_scheme) \<Rightarrow> string \<Rightarrow> number \<Rightarrow> string \<Rightarrow> int \<Rightarrow> string \<times> string \<times> string" where
  "paytm_branch rt note_text paymentAmount new_tid expires_s =
     (let queryParams = paytm_queryParams rt (MERCHANT_UPI rt) paymentAmount note_text;
          redirectUrl = ''paytmmp://cash_wallet?'' @ URLSearchParams_toString queryParams;
          payloadStr =
            JSON_stringify rt
              (JObject [(''redirect'', JString redirectUrl), (''tid'', JString new_tid),
                        (''exp'', JNumber (number_of_int expires_s))]);
          payloadB64 = base64 payloadStr;
          sig = createSignature rt payloadB64
      in (redirectUrl, payloadB64, sig))"

record create_response =
  res_redirect_url :: string
  res_payload :: string
  res_sig :: string
  res_expires :: int
  res_tid :: string
  res_amount :: string

text \<open>\<^verbatim>\<open>x || null\<close> on an optional string.\<close>

definition or_null :: "string option \<Rightarrow> string option" where
  "or_null x = (if present x then x else None)"

text \<open>
  \<^verbatim>\<open>createPayment\<close> (POST \<^verbatim>\<open>/api/payment/create\<close>) with the body fields \<open>amount\<close>,
  \<open>payType\<close>, \<open>orderId\<close> and \<open>userId\<close> of a body that is an object (a field the body
  lacks is \<^verbatim>\<open>undefined\<close>). After the test of both fields, \<^verbatim>\<open>parseFloat(amount)\<close> throws
  a \<^verbatim>\<open>TypeError\<close> when \<open>amount\<close> has no string conversion, and then
  \<^verbatim>\<open>payType.toLowerCase()\<close> throws one when \<open>payType\<close> is not a string; the
  \<^verbatim>\<open>catch\<close> block answers either with 500, before the payment type is looked at.
  \<^verbatim>\<open>Math.floor(Date.now() / 1000) + 600\<close> is \<open>now div 1000 + 600\<close>: the quotient of a
  time in milliseconds by 1000 is rounded by far less than \<open>1 / 1000\<close>, so its floor is
  the integer quotient. \<open>createdAt\<close> is the time of the save.
\<close>

definition createPayment ::
  "('a runtime_scheme) \<Rightarrow> draws \<Rightarrow> jsvalue \<Rightarrow> jsvalue \<Rightarrow> string option \<Rightarrow> string option
     \<Rightarrow> store \<Rightarrow> (error + create_response) \<times> store" where
  "createPayment rt d amount_field payType_field orderId_field userId_field s =
     (if \<not> truthy amount_field \<or> \<not> truthy payType_field then (Inl InvalidPayload, s)
      else
        case parseFloat rt amount_field of
          None \<Rightarrow> (Inl FailedToCreatePayment, s)
        | Some paymentAmount \<Rightarrow>
            (case payType_field of
               JString p \<Rightarrow>
                 let paymentType = trim (toLowerCase p)
                 in if paymentType \<notin> set [''phonepe'', ''paytm'']
                    then (Inl UnsupportedPaymentType, s)
                    else
                      let new_tid = generateTransactionId d;
                          expires_s = now_expires d div 1000 + 600;
                          note_text = generateNote rt d;
                          (redirectUrl_new, payloadB64, sig) =
                            (if paymentType = ''phonepe''
                             then phonepe_branch rt note_text paymentAmount
                             else paytm_branch rt note_text paymentAmount new_tid expires_s);
                          response =
                            \<lparr>res_redirect_url = redirectUrl_new, res_payload = payloadB64,
                             res_sig = sig, res_expires = expires_s, res_tid = new_tid,
                             res_amount = Number_toString rt paymentAmount\<rparr>;
                          new_transaction =
                            \<lparr>tid = new_tid, userId = or_null userId_field,
                             orderId = or_null orderId_field, amount = paymentAmount,
                             payType = paymentType, upi = MERCHANT_UPI rt,
                             status = ''pending'', payload = payloadB64, signature = sig,
                             redirectUrl = redirectUrl_new, note = note_text,
                             expires = expires_s * 1000, createdAt = now_save d,
                             completedAt = None\<rparr>
                      in (Inr response, insert_transaction new_transaction s)
             | _ \<Rightarrow> (Inl FailedToCreatePayment, s)))"

section \<open>Reachable stores\<close>


section \<open>The deep link format as the specification words it\<close>

text \<open>
  The Paytm link of the specification, with handle, amount and note substituted as they
  are:
  \<^verbatim>\<open>paytmmp://cash_wallet?pa=<handle>&am=<amount>&tn=<note>&pn=<handle>&mc=&cu=INR&url=&mode=&purpose=&orgid=&sign=&featuretype=money_transfer\<close>
\<close>

definition spec_paytm_link :: "string \<Rightarrow> string \<Rightarrow> string \<Rightarrow> string" where
  "spec_paytm_link handle amount_text note_text =
     ''paytmmp://cash_wallet?pa='' @ handle @ ''&am='' @ amount_text @ ''&tn='' @ note_text @
     ''&pn='' @ handle @
     ''&mc=&cu=INR&url=&mode=&purpose=&orgid=&sign=&featuretype=money_transfer''"

text \<open>The amount in minor units as the specification words it: multiplied by 100, floored.\<close>

definition spec_minor_units :: "rat \<Rightarrow> int" where
  "spec_minor_units a = \<lfloor>a * 100\<rfloor>"

text \<open>A transaction whose signature is the MAC of its payload.\<close>

definition signed :: "runtime \<Rightarrow> transaction \<Rightarrow> bool" where
  "signed rt t = (signature t = createSignature rt (payload t))"

section \<open>Sample data\<close>

text \<open>
  Closed instances of the theorems need a concrete runtime. \<open>sample_hmac\<close> stands in for
  HMAC-SHA256 there, and the sample runtime is never asked for the digits of a number
  that is not an integer; every theorem below is proved for an arbitrary runtime.
\<close>

definition sample_hmac :: "string \<Rightarrow> string \<Rightarrow> string" where
  "sample_hmac key message = take 4 (rev message) @ take 4 key"

definition sample_runtime :: runtime where
  "sample_runtime =
     \<lparr>hmac_sha256 = sample_hmac, shortest_decimal = (\<lambda>m e. ''?''),
      env_MERCHANT_SECRET = None, MERCHANT_UPI = ''mstandwafuelcentre@sbi''\<rparr>"

definition sample_transaction :: transaction where
  "sample_transaction =
     \<lparr>tid = ''cwlx3k2a9f0abc'', userId = None, orderId = Some ''order1'',
      amount = Finite 50 0, payType = ''paytm'', upi = ''mstandwafuelcentre@sbi'',
      status = ''pending'', payload = ''e30='',
      signature = createSignature sample_runtime ''e30='',
      redirectUrl = ''paytmmp://cash_wallet'', note = ''s123'',
      expires = 1700000600000, createdAt = 1700000000123, completedAt = None\<rparr>"

definition sample_order :: order where
  "sample_order = \<lparr>paymentStatus = ''unpaid'', status = ''pending''\<rparr>"

definition sample_store :: store where
  "sample_store =
     \<lparr>transactions = [sample_transaction],
      orders = [''order1'' \<mapsto> sample_order], saves = []\<rparr>"

definition empty_store :: store where
  "empty_store = \<lparr>transactions = [], orders = Map.empty, saves = []\<rparr>"

text \<open>
  One set of draws: \<^verbatim>\<open>Date.now()\<close> is 1700000000123, \<^verbatim>\<open>Math.random().toString(36)\<close>
  is \<^verbatim>\<open>0.4fzyo82mvyr\<close>, and \<^verbatim>\<open>Math.random()\<close> in \<^verbatim>\<open>generateNote\<close> is 0.5.
\<close>

definition sample_draws :: draws where
  "sample_draws =
     \<lparr>now_tid = 1700000000123, random_tid = ''0.4fzyo82mvyr'', now_expires = 1700000000123,
      random_note = Finite 1 (- 1), now_save = 1700000000125\<rparr>"

section \<open>Store lemmas\<close>

lemma findOne_replace_first:
  "findOne ts k = Some t \<Longrightarrow> tid t' = k \<Longrightarrow> findOne (replace_first t' ts) k = Some t'"
  by (induction ts) (auto simp: findOne_def)

lemma findOne_tid: "findOne ts k = Some t \<Longrightarrow> tid t = k"
  by (induction ts) (auto simp: findOne_def split: if_splits)


lemma length_hex: "length (hex bytes) = 2 * length bytes"
  by (induction bytes) (simp_all add: hex_def)

lemma not_a_signature: "odd (length sg) \<Longrightarrow> sg \<noteq> createSignature rt p"
  by (auto simp: createSignature_def length_hex)

lemma str_simps [simp]: "str (Some k) = k" "str None = []"
  by (simp_all add: str_def)

lemma present_simps [simp]: "present (Some k) = (k \<noteq> [])" "present None = False"
  by (simp_all add: present_def)

lemma save_transaction_simps [simp]:
  "transactions (save_transaction t s) = replace_first t (transactions s)"
  "orders (save_transaction t s) = orders s"
  "saves (save_transaction t s) = saves s @ [Transaction_save (tid t)]"
  by (simp_all add: save_transaction_def)

lemma save_order_simps [simp]:
  "transactions (save_order oid ord s) = transactions s"
  "orders (save_order oid ord s) = (orders s)(oid \<mapsto> ord)"
  "saves (save_order oid ord s) = saves s @ [Order_save oid]"
  by (simp_all add: save_order_def)

lemma length_replace_first: "length (replace_first t' ts) = length ts"
  by (induction ts) auto

lemma nth_replace_first:
  "findOne ts k = Some t \<Longrightarrow> tid t' = k \<Longrightarrow> i < length ts
   \<Longrightarrow> replace_first t' ts ! i = ts ! i \<or> (ts ! i = t \<and> replace_first t' ts ! i = t')"
proof (induction ts arbitrary: i)
  case Nil
  then show ?case by simp
next
  case (Cons d ds)
  show ?case
  proof (cases "tid d = k")
    case True
    with Cons.prems show ?thesis by (cases i) (auto simp: findOne_def)
  next
    case False
    with Cons.prems have "findOne ds k = Some t" by (simp add: findOne_def)
    with Cons.IH Cons.prems False show ?thesis by (cases i) auto
  qed
qed


lemma verifyPayment_transactions:
  "transactions (snd (verifyPayment rt now tf sf sgf s)) = transactions s
   \<or> (\<exists>t. findOne (transactions s) (str tf) = Some t \<and> transaction.status t = ''pending''
         \<and> transactions (snd (verifyPayment rt now tf sf sgf s)) =
             replace_first (t\<lparr>transaction.status := str sf, completedAt := Some now\<rparr>)
               (transactions s))"
  by (auto simp: verifyPayment_def Let_def split: option.splits)

lemma checkPaymentStatus_transactions:
  "snd (checkPaymentStatus now tf s) = s
   \<or> (\<exists>t. findOne (transactions s) (str tf) = Some t \<and> transaction.status t = ''pending''
         \<and> expires t < now
         \<and> snd (checkPaymentStatus now tf s) =
             save_transaction (t\<lparr>transaction.status := ''expired''\<rparr>) s)"
  by (auto simp: checkPaymentStatus_def Let_def split: option.splits)

lemma verifyPayment_found:
  assumes "findOne (transactions s) k = Some t" and "k \<noteq> []"
  shows "verifyPayment rt now (Some k) sf sgf s =
     (if \<not> present sf then (Inl TidAndStatusRequired, s)
      else if present sgf \<and> str sgf \<noteq> createSignature rt (payload t) then (Inl InvalidSignature, s)
      else if transaction.status t \<noteq> ''pending''
      then (Inl (AlreadyProcessed (transaction.status t)), s)
      else
        let t' = t\<lparr>transaction.status := str sf, completedAt := Some now\<rparr>;
            s1 = save_transaction t' s
        in (Inr \<lparr>vr_success = True, vr_message = ''Payment '' @ str sf, vr_tid = tid t,
                  vr_status = str sf, vr_amount = amount t\<rparr>,
            if present (orderId t)
            then (case orders s (str (orderId t)) of
                    None \<Rightarrow> s1
                  | Some ord \<Rightarrow> save_order (str (orderId t)) (reconcile (str sf) ord) s1)
            else s1))"
  using assms
  by (simp add: verifyPayment_def Let_def split: option.splits)

lemma verifyPayment_success_found:
  assumes "fst (verifyPayment rt now tf sf sgf s) = Inr r"
  shows "present tf \<and> present sf
     \<and> (\<exists>t. findOne (transactions s) (str tf) = Some t \<and> transaction.status t = ''pending'')"
  using assms
  by (auto simp: verifyPayment_def Let_def split: option.splits if_splits)

lemma supported_nonempty:
  "trim (toLowerCase p) = ''phonepe'' \<or> trim (toLowerCase p) = ''paytm'' \<Longrightarrow> p \<noteq> []"
  by (auto simp: trim_def toLowerCase_def)

lemma createPayment_phonepe:
  assumes "truthy a" and "parseFloat rt a = Some x" and "trim (toLowerCase p) = ''phonepe''"
  shows "createPayment rt d a (JString p) oid uid s =
     (case phonepe_branch rt (generateNote rt d) x of
        (link, payloadB64, sig) \<Rightarrow>
          (Inr \<lparr>res_redirect_url = link, res_payload = payloadB64, res_sig = sig,
                res_expires = now_expires d div 1000 + 600,
                res_tid = generateTransactionId d,
                res_amount = Number_toString rt x\<rparr>,
           insert_transaction
             \<lparr>tid = generateTransactionId d, userId = or_null uid, orderId = or_null oid,
              amount = x, payType = ''phonepe'', upi = MERCHANT_UPI rt,
              status = ''pending'', payload = payloadB64, signature = sig,
              redirectUrl = link, note = generateNote rt d,
              expires = (now_expires d div 1000 + 600) * 1000, createdAt = now_save d,
              completedAt = None\<rparr> s))"
  using assms supported_nonempty [of p]
  by (simp add: createPayment_def Let_def split: prod.splits)

lemma createPayment_paytm:
  assumes "truthy a" and "parseFloat rt a = Some x" and "trim (toLowerCase p) = ''paytm''"
  shows "createPayment rt d a (JString p) oid uid s =
     (case paytm_branch rt (generateNote rt d) x (generateTransactionId d)
             (now_expires d div 1000 + 600) of
        (link, payloadB64, sig) \<Rightarrow>
          (Inr \<lparr>res_redirect_url = link, res_payload = payloadB64, res_sig = sig,
                res_expires = now_expires d div 1000 + 600,
                res_tid = generateTransactionId d,
                res_amount = Number_toString rt x\<rparr>,
           insert_transaction
             \<lparr>tid = generateTransactionId d, userId = or_null uid, orderId = or_null oid,
              amount = x, payType = ''paytm'', upi = MERCHANT_UPI rt,
              status = ''pending'', payload = payloadB64, signature = sig,
              redirectUrl = link, note = generateNote rt d,
              expires = (now_expires d div 1000 + 600) * 1000, createdAt = now_save d,
              completedAt = None\<rparr> s))"
  using assms supported_nonempty [of p]
  by (simp add: createPayment_def Let_def split: prod.splits)

lemma createPayment_Inr:
  assumes "fst (createPayment rt d a p oid uid s) = Inr r"
  shows "truthy a \<and> (\<exists>x. parseFloat rt a = Some x) \<and> (\<exists>t. p = JString t
            \<and> (trim (toLowerCase t) = ''phonepe'' \<or> trim (toLowerCase t) = ''paytm''))"
  using assms
  by (cases p) (auto simp: createPayment_def Let_def split: if_splits prod.splits option.splits)




lemma paytm_query_string:
  "URLSearchParams_toString (paytm_queryParams rt handle x n) =
     ''pa='' @ form_urlencode handle @ ''&am='' @ form_urlencode (Number_toString rt x) @
     ''&tn='' @ form_urlencode n @ ''&pn='' @ form_urlencode handle @
     ''&mc=&cu=INR&url=&mode=&purpose=&orgid=&sign=&featuretype=money_transfer''"
proof -
  have names: "form_urlencode ''pa'' = ''pa''" "form_urlencode ''am'' = ''am''"
    "form_urlencode ''tn'' = ''tn''" "form_urlencode ''pn'' = ''pn''"
    "form_urlencode ''mc'' = ''mc''" "form_urlencode ''cu'' = ''cu''"
    "form_urlencode ''url'' = ''url''" "form_urlencode ''mode'' = ''mode''"
    "form_urlencode ''purpose'' = ''purpose''" "form_urlencode ''orgid'' = ''orgid''"
    "form_urlencode ''sign'' = ''sign''" "form_urlencode ''featuretype'' = ''featuretype''"
    "form_urlencode ''INR'' = ''INR''" "form_urlencode [] = []"
    "form_urlencode ''money_transfer'' = ''money_transfer''"
    by (simp_all add: form_urlencode_def is_alnum_def is_digit_def is_upper_def is_lower_def
        code_def)
  show ?thesis
    by (simp add: URLSearchParams_toString_def paytm_queryParams_def names)
qed


section \<open>The runtime model on known values\<close>

text \<open>
  The conversion and the arithmetic reproduce well-known binary64 results: 0.1 and 0.2,
  their sum 0.30000000000000004, and \<open>2 ^ 53 + 1\<close>, which rounds to \<open>2 ^ 53\<close>.
\<close>

lemma binary64_known_values:
  "parseFloat_string ''0.1'' = Finite 7205759403792794 (- 56)"
  "parseFloat_string ''0.2'' = Finite 7205759403792794 (- 55)"
  "plus_number (Finite 7205759403792794 (- 56)) (Finite 7205759403792794 (- 55)) =
     Finite 5404319552844596 (- 54)"
  "parseFloat_string ''0.30000000000000004'' = Finite 5404319552844596 (- 54)"
  "parseFloat_string ''9007199254740993'' = Finite 4503599627370496 1"
  "parseFloat_string '' -12.5e-1xyz'' = Finite (- 5629499534213120) (- 52)"
  "parseFloat_string ''abc'' = NaN"
  by (simp_all add: parseFloat_string_def trimStart_def white_def code_point_def
      is_white_space_def utf8_length_def is_digit_def code_def
      digits_value_def binary64_def floor_log2_def scale_def round_half_even_def Let_def)

text \<open>
  White space outside ASCII: a no-break space (U+00A0), an ideographic space (U+3000), a
  line separator (U+2028) and a byte order mark (U+FEFF) are stripped; a zero width space
  (U+200B) is not white space.
\<close>

lemma white_space_known_values:
  "trim ([CHR 0xC2, CHR 0xA0] @ ''paytm'' @ [CHR 0xE3, CHR 0x80, CHR 0x80]) = ''paytm''"
  "trim ([CHR 0xE2, CHR 0x80, CHR 0xA8, CHR 0x09] @ ''a b'' @ [CHR 0xEF, CHR 0xBB, CHR 0xBF]) =
     ''a b''"
  "trim ([CHR 0xE2, CHR 0x80, CHR 0x8B] @ ''paytm'') = [CHR 0xE2, CHR 0x80, CHR 0x8B] @ ''paytm''"
  "parseFloat_string ([CHR 0xC2, CHR 0xA0] @ ''50'') = Finite 7036874417766400 (- 47)"
  by (simp_all add: trim_def parseFloat_string_def trimStart_def white_def code_point_def
      is_white_space_def utf8_length_def is_digit_def code_def digits_value_def binary64_def
      floor_log2_def scale_def round_half_even_def Let_def)

text \<open>
  The string conversion of an amount: an array prints its elements, an object prints as
  \<^verbatim>\<open>[object Object]\<close> unless it has a property \<^verbatim>\<open>toString\<close> of its own, with which
  the conversion throws, also from inside an array.
\<close>

lemma ToString_known_values:
  "ToString rt (JArray [JString ''50'']) = Some ''50''"
  "ToString rt (JArray [JString ''1'', JNull, JArray [JBoolean True]]) = Some ''1,,true''"
  "ToString rt (JObject [(''valueOf'', JNumber (Finite 1 0))]) = Some ''[object Object]''"
  "ToString rt (JObject [(''toString'', JNull)]) = None"
  "ToString rt (JArray [JString ''1'', JObject [(''toString'', JNumber (Finite 1 0))]]) = None"
  "parseFloat rt (JArray [JString ''50'']) = Some (Finite 7036874417766400 (- 47))"
  "parseFloat rt (JObject []) = Some NaN"
  "parseFloat rt (JObject [(''toString'', JNumber (Finite 1 0))]) = None"
  by (simp_all add: parseFloat_def parseFloat_string_def trimStart_def white_def
      code_point_def is_white_space_def utf8_length_def is_digit_def code_def digits_value_def
      binary64_def floor_log2_def scale_def round_half_even_def Let_def)

text \<open>The encoders on the test vectors of RFC 4648 and on reserved characters.\<close>

lemma encoding_known_values:
  "base64 ''foobar'' = ''Zm9vYmFy''"
  "base64 ''fooba'' = ''Zm9vYmE=''"
  "base64 ''foob'' = ''Zm9vYg==''"
  "encodeURIComponent ''a b&c/d=e+f'' = ''a%20b%26c%2Fd%3De%2Bf''"
  "form_urlencode ''a b&c@d*e~f'' = ''a+b%26c%40d*e%7Ef''"
  "toString36 35 = ''z''"
  "toString36 1295 = ''zz''"
  "decimal (- 42) = ''-42''"
  by (simp_all add: b64_char_def code_def encodeURIComponent_def form_urlencode_def
      is_alnum_def is_digit_def is_upper_def is_lower_def percent_def upper_hex_digit_def
      toString36_def decimal_def digit_char_def)

section \<open>The sample data evaluated\<close>

lemma sample_signature:
  "createSignature sample_runtime ''e30='' = ''3d3033656d795f73''"
  by (simp add: createSignature_def sample_runtime_def sample_hmac_def MERCHANT_SECRET_def
      present_def str_def hex_def hex_digit_def)

lemma sample_findOne:
  "findOne (transactions sample_store) ''cwlx3k2a9f0abc'' = Some sample_transaction"
  by (simp add: findOne_def sample_store_def sample_transaction_def)

lemma sample_fields:
  "tid sample_transaction = ''cwlx3k2a9f0abc''"
  "transaction.status sample_transaction = ''pending''"
  "payload sample_transaction = ''e30=''"
  "expires sample_transaction = 1700000600000"
  "orderId sample_transaction = Some ''order1''"
  "amount sample_transaction = Finite 50 0"
  by (simp_all add: sample_transaction_def)

lemma sample_store_fields:
  "transactions sample_store = [sample_transaction]"
  "orders sample_store ''order1'' = Some sample_order"
  "saves sample_store = []"
  by (simp_all add: sample_store_def)

lemma sample_find:
  "findOne [sample_transaction] ''cwlx3k2a9f0abc'' = Some sample_transaction"
  by (simp add: findOne_def sample_fields)

lemma sample_verify:
  assumes "st \<noteq> []"
  shows "fst (verifyPayment sample_runtime now (Some ''cwlx3k2a9f0abc'') (Some st) None
            sample_store) =
           Inr \<lparr>vr_success = True, vr_message = ''Payment '' @ st,
                vr_tid = ''cwlx3k2a9f0abc'', vr_status = st, vr_amount = Finite 50 0\<rparr>"
    and "findOne (transactions (snd (verifyPayment sample_runtime now (Some ''cwlx3k2a9f0abc'')
            (Some st) None sample_store))) ''cwlx3k2a9f0abc'' =
           Some (sample_transaction\<lparr>transaction.status := st, completedAt := Some now\<rparr>)"
    and "transactions (snd (verifyPayment sample_runtime now (Some ''cwlx3k2a9f0abc'')
            (Some st) None sample_store)) =
           [sample_transaction\<lparr>transaction.status := st, completedAt := Some now\<rparr>]"
  using assms
  by (simp_all add: verifyPayment_found [OF sample_findOne] sample_fields sample_store_fields
      Let_def findOne_def)

lemma sample_expire:
  "findOne (transactions (snd (checkPaymentStatus 1700000700000 (Some ''cwlx3k2a9f0abc'')
       sample_store))) ''cwlx3k2a9f0abc'' =
     Some (sample_transaction\<lparr>transaction.status := ''expired''\<rparr>)"
  by (simp add: checkPaymentStatus_def sample_find sample_fields sample_store_fields
      findOne_def)


lemma sample_note: "generateNote sample_runtime sample_draws = ''s550''"
  by (simp add: generateNote_def sample_draws_def Number_toString_def decimal_def
      digit_char_def binary64_def floor_log2_def scale_def round_half_even_def
      number_of_int_def Let_def)

lemma sample_paytm_type: "trim (toLowerCase ''paytm'') = ''paytm''"
  by (simp add: trim_def toLowerCase_def is_upper_def white_def code_point_def
      is_white_space_def utf8_length_def code_def)

lemma sample_phonepe_type: "trim (toLowerCase ''PhonePe'') = ''phonepe''"
  by (simp add: trim_def toLowerCase_def is_upper_def white_def code_point_def
      is_white_space_def utf8_length_def code_def)

lemma sample_spaced_type: "trim (toLowerCase '' PayTM '') = ''paytm''"
  by (simp add: trim_def toLowerCase_def is_upper_def white_def code_point_def
      is_white_space_def utf8_length_def code_def)

lemma sample_upi_type: "trim (toLowerCase ''upi'') = ''upi''"
  by (simp add: trim_def toLowerCase_def is_upper_def white_def code_point_def
      is_white_space_def utf8_length_def code_def)

lemma sample_unicode_type:
  "trim (toLowerCase ([CHR 0xC2, CHR 0xA0] @ ''PayTM'' @ [CHR 0xE2, CHR 0x80, CHR 0xA8])) =
     ''paytm''"
  by (simp add: trim_def toLowerCase_def is_upper_def white_def code_point_def
      is_white_space_def utf8_length_def code_def)

lemma sample_phonepe_payload:
  "base64 (JSON_stringify sample_runtime
     (phonepe_payloadJson ''mstandwafuelcentre@sbi'' ''s550'' (Finite 50 0))) =
   ''eyJjb250YWN0Ijp7ImNic05hbWUiOiIiLCJuaWNrTmFtZSI6IiIsInZwYSI6Im1zdGFuZHdhZnVlbGNlbnRyZUBzYmkiLCJ0eXBlIjoiVlBBIn0sInAycFBheW1lbnRDaGVja291dFBhcmFtcyI6eyJub3RlIjoiczU1MCIsImlzQnlEZWZhdWx0S25vd25Db250YWN0Ijp0cnVlLCJpbml0aWFsQW1vdW50Ijo1MDAwLCJjdXJyZW5jeSI6IklOUiIsImNoZWNrb3V0VHlwZSI6IkRFRkFVTFQiLCJ0cmFuc2FjdGlvbkNvbnRleHQiOiJwMnAifX0=''"
  by (simp add: phonepe_payloadJson_def initialAmount_def quote_def json_escape_def
      Number_toString_def decimal_def digit_char_def binary64_def floor_log2_def scale_def
      round_half_even_def number_of_int_def b64_char_def code_def Let_def)

lemma sample_phonepe_data:
  "encodeURIComponent
     ''eyJjb250YWN0Ijp7ImNic05hbWUiOiIiLCJuaWNrTmFtZSI6IiIsInZwYSI6Im1zdGFuZHdhZnVlbGNlbnRyZUBzYmkiLCJ0eXBlIjoiVlBBIn0sInAycFBheW1lbnRDaGVja291dFBhcmFtcyI6eyJub3RlIjoiczU1MCIsImlzQnlEZWZhdWx0S25vd25Db250YWN0Ijp0cnVlLCJpbml0aWFsQW1vdW50Ijo1MDAwLCJjdXJyZW5jeSI6IklOUiIsImNoZWNrb3V0VHlwZSI6IkRFRkFVTFQiLCJ0cmFuc2FjdGlvbkNvbnRleHQiOiJwMnAifX0='' =
   ''eyJjb250YWN0Ijp7ImNic05hbWUiOiIiLCJuaWNrTmFtZSI6IiIsInZwYSI6Im1zdGFuZHdhZnVlbGNlbnRyZUBzYmkiLCJ0eXBlIjoiVlBBIn0sInAycFBheW1lbnRDaGVja291dFBhcmFtcyI6eyJub3RlIjoiczU1MCIsImlzQnlEZWZhdWx0S25vd25Db250YWN0Ijp0cnVlLCJpbml0aWFsQW1vdW50Ijo1MDAwLCJjdXJyZW5jeSI6IklOUiIsImNoZWNrb3V0VHlwZSI6IkRFRkFVTFQiLCJ0cmFuc2FjdGlvbkNvbnRleHQiOiJwMnAifX0%3D''"
  by (simp add: encodeURIComponent_def is_alnum_def is_digit_def is_upper_def is_lower_def
      percent_def upper_hex_digit_def code_def)


lemma sample_paytm_link:
  "map_sum id res_redirect_url
     (fst (createPayment sample_runtime sample_draws (JNumber (Finite 50 0)) (JString ''paytm'')
        None None empty_store)) =
   Inr (''paytmmp://cash_wallet?'' @
        URLSearchParams_toString
          (paytm_queryParams sample_runtime ''mstandwafuelcentre@sbi'' (Finite 50 0) ''s550''))"
proof -
  have a: "truthy (JNumber (Finite 50 0))" by simp
  have x: "parseFloat sample_runtime (JNumber (Finite 50 0)) = Some (Finite 50 0)"
    by (simp add: parseFloat_def)
  show ?thesis
    by (simp add: createPayment_paytm [OF a x sample_paytm_type] paytm_branch_def Let_def
        sample_note sample_runtime_def [THEN arg_cong, of MERCHANT_UPI])
qed

lemma sample_query_string:
  "URLSearchParams_toString
     (paytm_queryParams sample_runtime ''mstandwafuelcentre@sbi'' (Finite 50 0) ''s550'') =
   ''pa=mstandwafuelcentre%40sbi&am=50&tn=s550&pn=mstandwafuelcentre%40sbi&mc=&cu=INR&url=&mode=&purpose=&orgid=&sign=&featuretype=money_transfer''"
  by (simp add: URLSearchParams_toString_def paytm_queryParams_def form_urlencode_def
      is_alnum_def is_digit_def is_lower_def is_upper_def code_def percent_def
      upper_hex_digit_def Number_toString_def decimal_def digit_char_def)

lemma parseFloat_1_15: "parseFloat_string ''1.15'' = Finite 5179139571476070 (- 52)"
  by (simp add: parseFloat_string_def trimStart_def white_def code_point_def
      is_white_space_def utf8_length_def is_digit_def code_def digits_value_def
      binary64_def floor_log2_def scale_def round_half_even_def Let_def)

lemma times_100_1_15:
  "times_number (Finite 5179139571476070 (- 52)) (Finite 100 0) = Finite 8092405580431359 (- 46)"
  by (simp add: binary64_def floor_log2_def scale_def round_half_even_def Let_def)

lemma floor_1_15: "Math_floor (Finite 8092405580431359 (- 46)) = number_of_int 114"
  by simp

lemma number_114: "number_of_int 114 = Finite 8022036836253696 (- 46)"
  by (simp add: number_of_int_def binary64_def floor_log2_def scale_def round_half_even_def
      Let_def)

lemma print_114: "Number_toString rt (Finite 8022036836253696 (- 46)) = ''114''"
  by (simp add: Number_toString_def decimal_def digit_char_def)

lemma initialAmount_other_amounts:
  "integer_value (initialAmount (parseFloat_string ''0.29'')) = Some 28"
  "integer_value (initialAmount (parseFloat_string ''4.35'')) = Some 434"
  "integer_value (initialAmount (parseFloat_string ''19.99'')) = Some 1998"
  "integer_value (initialAmount (parseFloat_string ''49.5'')) = Some 4950"
  by (simp_all add: initialAmount_def parseFloat_string_def trimStart_def white_def code_point_def
      is_white_space_def utf8_length_def is_digit_def code_def
      digits_value_def binary64_def floor_log2_def scale_def round_half_even_def
      number_of_int_def Let_def)

section \<open>Status transitions\<close>

text \<open>
  Claim C1, as the code has it. Neither handler adds or removes a transaction, and the
  status of a stored transaction changes only while it is \<^verbatim>\<open>pending\<close>:
  \<open>checkPaymentStatus\<close> can only change it to \<^verbatim>\<open>expired\<close>, \<open>verifyPayment\<close> only to
  the reported status, which is whatever non-empty string the request carries (nothing
  restricts it to \<^verbatim>\<open>success\<close> or \<^verbatim>\<open>failed\<close>). Once the status of the transaction
  addressed is not \<^verbatim>\<open>pending\<close>, \<open>checkPaymentStatus\<close> leaves the store as it is and
  every \<open>verifyPayment\<close> call on it fails and leaves the store as it is. The failure is
  \<^verbatim>\<open>Transaction already <status>\<close> unless the request lacks tid or status, or carries a
  signature that differs from the MAC of the stored payload: the signature is checked
  before the status, and such a call fails with \<^verbatim>\<open>Invalid signature\<close>.
\<close>

theorem status_transitions:
  "length (transactions (snd (checkPaymentStatus now tf s))) = length (transactions s)
   \<and> length (transactions (snd (verifyPayment rt now tf sf sgf s))) = length (transactions s)
   \<and> (\<forall>i < length (transactions s).
         (transaction.status (transactions (snd (checkPaymentStatus now tf s)) ! i)
             \<noteq> transaction.status (transactions s ! i)
          \<longrightarrow> transaction.status (transactions s ! i) = ''pending''
              \<and> transaction.status (transactions (snd (checkPaymentStatus now tf s)) ! i)
                  = ''expired'')
       \<and> (transaction.status (transactions (snd (verifyPayment rt now tf sf sgf s)) ! i)
             \<noteq> transaction.status (transactions s ! i)
          \<longrightarrow> transaction.status (transactions s ! i) = ''pending''
              \<and> transaction.status (transactions (snd (verifyPayment rt now tf sf sgf s)) ! i)
                  = str sf))
   \<and> (\<forall>t. findOne (transactions s) (str tf) = Some t \<and> transaction.status t \<noteq> ''pending''
         \<longrightarrow> snd (checkPaymentStatus now tf s) = s
            \<and> verifyPayment rt now tf sf sgf s =
                (Inl (if \<not> present tf \<or> \<not> present sf then TidAndStatusRequired
                      else if present sgf \<and> str sgf \<noteq> createSignature rt (payload t)
                      then InvalidSignature
                      else AlreadyProcessed (transaction.status t)), s))"
proof -
  have check: "\<forall>i < length (transactions s).
      transaction.status (transactions (snd (checkPaymentStatus now tf s)) ! i)
             \<noteq> transaction.status (transactions s ! i)
          \<longrightarrow> transaction.status (transactions s ! i) = ''pending''
              \<and> transaction.status (transactions (snd (checkPaymentStatus now tf s)) ! i)
                  = ''expired''"
  proof (intro allI impI)
    fix i
    assume i: "i < length (transactions s)"
      and changed: "transaction.status (transactions (snd (checkPaymentStatus now tf s)) ! i)
             \<noteq> transaction.status (transactions s ! i)"
    from checkPaymentStatus_transactions [of now tf s] changed
    obtain t where t: "findOne (transactions s) (str tf) = Some t"
        "transaction.status t = ''pending''"
        "snd (checkPaymentStatus now tf s) =
           save_transaction (t\<lparr>transaction.status := ''expired''\<rparr>) s"
      by auto
    have "tid (t\<lparr>transaction.status := ''expired''\<rparr>) = str tf"
      using findOne_tid [OF t(1)] by simp
    from nth_replace_first [OF t(1) this i] changed t(2,3)
    show "transaction.status (transactions s ! i) = ''pending''
              \<and> transaction.status (transactions (snd (checkPaymentStatus now tf s)) ! i)
                  = ''expired''"
      by auto
  qed
  have verify: "\<forall>i < length (transactions s).
      transaction.status (transactions (snd (verifyPayment rt now tf sf sgf s)) ! i)
             \<noteq> transaction.status (transactions s ! i)
          \<longrightarrow> transaction.status (transactions s ! i) = ''pending''
              \<and> transaction.status (transactions (snd (verifyPayment rt now tf sf sgf s)) ! i)
                  = str sf"
  proof (intro allI impI)
    fix i
    assume i: "i < length (transactions s)"
      and changed: "transaction.status (transactions (snd (verifyPayment rt now tf sf sgf s)) ! i)
             \<noteq> transaction.status (transactions s ! i)"
    from verifyPayment_transactions [of rt now tf sf sgf s] changed
    obtain t where t: "findOne (transactions s) (str tf) = Some t"
        "transaction.status t = ''pending''"
        "transactions (snd (verifyPayment rt now tf sf sgf s)) =
           replace_first (t\<lparr>transaction.status := str sf, completedAt := Some now\<rparr>)
             (transactions s)"
      by auto
    have "tid (t\<lparr>transaction.status := str sf, completedAt := Some now\<rparr>) = str tf"
      using findOne_tid [OF t(1)] by simp
    from nth_replace_first [OF t(1) this i] changed t(2,3)
    show "transaction.status (transactions s ! i) = ''pending''
              \<and> transaction.status (transactions (snd (verifyPayment rt now tf sf sgf s)) ! i)
                  = str sf"
      by auto
  qed
  have len: "length (transactions (snd (checkPaymentStatus now tf s))) = length (transactions s)"
    "length (transactions (snd (verifyPayment rt now tf sf sgf s))) = length (transactions s)"
    using checkPaymentStatus_transactions [of now tf s]
      verifyPayment_transactions [of rt now tf sf sgf s]
    by (auto simp: length_replace_first)
  have terminal: "\<forall>t. findOne (transactions s) (str tf) = Some t
         \<and> transaction.status t \<noteq> ''pending''
         \<longrightarrow> snd (checkPaymentStatus now tf s) = s
            \<and> verifyPayment rt now tf sf sgf s =
                (Inl (if \<not> present tf \<or> \<not> present sf then TidAndStatusRequired
                      else if present sgf \<and> str sgf \<noteq> createSignature rt (payload t)
                      then InvalidSignature
                      else AlreadyProcessed (transaction.status t)), s)"
    by (auto simp: checkPaymentStatus_def verifyPayment_def)
  show ?thesis
    using len check verify terminal by blast
qed

text \<open>
  An instance: a read after expiry moves the sample transaction from \<^verbatim>\<open>pending\<close> to
  \<^verbatim>\<open>expired\<close>; after a successful verification a second one is refused and a status
  read changes nothing.
\<close>

theorem status_transitions_witness:
  "transaction.status
      (transactions (snd (checkPaymentStatus 1700000700000 (Some ''cwlx3k2a9f0abc'')
          sample_store)) ! 0) = ''expired''
   \<and> verifyPayment sample_runtime 1700000900000 (Some ''cwlx3k2a9f0abc'') (Some ''failed'') None
       (snd (verifyPayment sample_runtime 1700000100000 (Some ''cwlx3k2a9f0abc'')
               (Some ''success'') None sample_store)) =
     (Inl (AlreadyProcessed ''success''),
      snd (verifyPayment sample_runtime 1700000100000 (Some ''cwlx3k2a9f0abc'')
             (Some ''success'') None sample_store))
   \<and> snd (checkPaymentStatus 1700000900000 (Some ''cwlx3k2a9f0abc'')
       (snd (verifyPayment sample_runtime 1700000100000 (Some ''cwlx3k2a9f0abc'')
               (Some ''success'') None sample_store))) =
     snd (verifyPayment sample_runtime 1700000100000 (Some ''cwlx3k2a9f0abc'')
               (Some ''success'') None sample_store)"
proof -
  have ne: "(''success''::string) \<noteq> []" by simp
  note found = sample_verify(2) [OF ne, of 1700000100000]
  have i: "0 < length (transactions sample_store)"
    by (simp add: sample_store_fields)
  have changed: "transaction.status
      (transactions (snd (checkPaymentStatus 1700000700000 (Some ''cwlx3k2a9f0abc'')
          sample_store)) ! 0) \<noteq> transaction.status (transactions sample_store ! 0)"
    by (simp add: checkPaymentStatus_def sample_find sample_fields sample_store_fields)
  note moves = status_transitions [of 1700000700000 "Some ''cwlx3k2a9f0abc''" sample_store
      sample_runtime None None, THEN conjunct2, THEN conjunct2, THEN conjunct1, rule_format,
      OF i, THEN conjunct1, rule_format, OF changed, THEN conjunct2]
  have terminal: "findOne (transactions (snd (verifyPayment sample_runtime 1700000100000
        (Some ''cwlx3k2a9f0abc'') (Some ''success'') None sample_store)))
        (str (Some ''cwlx3k2a9f0abc'')) =
      Some (sample_transaction\<lparr>transaction.status := ''success'',
              completedAt := Some 1700000100000\<rparr>)
    \<and> transaction.status (sample_transaction\<lparr>transaction.status := ''success'',
              completedAt := Some 1700000100000\<rparr>) \<noteq> ''pending''"
    using found by simp
  note stuck = status_transitions [of 1700000900000 "Some ''cwlx3k2a9f0abc''"
      "snd (verifyPayment sample_runtime 1700000100000 (Some ''cwlx3k2a9f0abc'')
               (Some ''success'') None sample_store)"
      sample_runtime "Some ''failed''" None,
      THEN conjunct2, THEN conjunct2, THEN conjunct2, rule_format, OF terminal]
  from moves stuck show ?thesis by simp
qed

text \<open>
  The claim as the specification states it fails twice. A verification reporting
  \<^verbatim>\<open>refunded\<close> moves the pending sample transaction to \<^verbatim>\<open>refunded\<close>, which is none of
  \<^verbatim>\<open>success\<close>, \<^verbatim>\<open>failed\<close>, \<^verbatim>\<open>expired\<close>. And on a transaction that is already
  \<^verbatim>\<open>success\<close>, a verification carrying the signature \<^verbatim>\<open>x\<close> (of odd length, so the
  hexadecimal digest of no MAC) fails with
  \<^verbatim>\<open>Invalid signature\<close>, not with \<^verbatim>\<open>Transaction already success\<close>.
\<close>

theorem status_transitions_counterexample:
  "transaction.status (transactions sample_store ! 0) = ''pending''
   \<and> transaction.status
        (transactions (snd (verifyPayment sample_runtime 1700000100000 (Some ''cwlx3k2a9f0abc'')
            (Some ''refunded'') None sample_store)) ! 0) = ''refunded''
   \<and> fst (verifyPayment sample_runtime 1700000200000 (Some ''cwlx3k2a9f0abc'') (Some ''failed'')
          (Some ''x'')
          (snd (verifyPayment sample_runtime 1700000100000 (Some ''cwlx3k2a9f0abc'')
             (Some ''success'') None sample_store))) = Inl InvalidSignature"
proof -
  have r: "(''refunded''::string) \<noteq> []" and ne: "(''success''::string) \<noteq> []" by simp_all
  show ?thesis
    by (simp add: sample_verify(3) [OF r] verifyPayment_found [OF sample_verify(2) [OF ne]]
        sample_fields sample_store_fields not_a_signature)
qed

section \<open>Verifying twice\<close>

text \<open>
  Claim C2, as the code has it. When a \<open>verifyPayment\<close> call succeeds with a reported
  status other than the string \<^verbatim>\<open>pending\<close>, every later call for the same tid on the
  store it leaves fails and changes nothing: with \<^verbatim>\<open>Transaction already <status>\<close>
  (the status the first call reported), unless the second call lacks a status or carries
  a signature that differs from the MAC of the stored payload (\<^verbatim>\<open>Invalid signature\<close>).
  So of two successive calls at most one succeeds, provided the first does not report
  \<^verbatim>\<open>pending\<close>.
\<close>

theorem verify_twice:
  assumes ok: "fst (verifyPayment rt now1 tf sf1 sg1 s) = Inr r1"
    and final: "str sf1 \<noteq> ''pending''"
  shows "\<exists>t. findOne (transactions s) (str tf) = Some t
     \<and> verifyPayment rt now2 tf sf2 sg2 (snd (verifyPayment rt now1 tf sf1 sg1 s)) =
         (Inl (if \<not> present sf2 then TidAndStatusRequired
               else if present sg2 \<and> str sg2 \<noteq> createSignature rt (payload t)
               then InvalidSignature
               else AlreadyProcessed (str sf1)),
          snd (verifyPayment rt now1 tf sf1 sg1 s))"
proof -
  from verifyPayment_success_found [OF ok]
  obtain t where tf: "present tf" and t: "findOne (transactions s) (str tf) = Some t"
    and pending: "transaction.status t = ''pending''"
    by auto
  let ?t' = "t\<lparr>transaction.status := str sf1, completedAt := Some now1\<rparr>"
  have tid: "tid ?t' = str tf" using findOne_tid [OF t] by simp
  have k: "str tf \<noteq> []" using tf by (simp add: present_def)
  have tf_eq: "tf = Some (str tf)" using tf by (cases tf) simp_all
  have "transactions (snd (verifyPayment rt now1 tf sf1 sg1 s)) =
          replace_first ?t' (transactions s)"
    using ok t pending tf
    by (auto simp: verifyPayment_def Let_def split: option.splits if_splits)
  with findOne_replace_first [OF t tid]
  have found': "findOne (transactions (snd (verifyPayment rt now1 tf sf1 sg1 s))) (str tf)
       = Some ?t'"
    by simp
  have "verifyPayment rt now2 (Some (str tf)) sf2 sg2 (snd (verifyPayment rt now1 tf sf1 sg1 s)) =
         (Inl (if \<not> present sf2 then TidAndStatusRequired
               else if present sg2 \<and> str sg2 \<noteq> createSignature rt (payload t)
               then InvalidSignature
               else AlreadyProcessed (str sf1)),
          snd (verifyPayment rt now1 tf sf1 sg1 s))"
    using final by (simp add: verifyPayment_found [OF found' k])
  with t tf_eq show ?thesis by metis
qed

text \<open>An instance: the sample transaction verified as \<^verbatim>\<open>success\<close>, then as \<^verbatim>\<open>failed\<close>.\<close>

theorem verify_twice_witness:
  "verifyPayment sample_runtime 1700000200000 (Some ''cwlx3k2a9f0abc'') (Some ''failed'') None
     (snd (verifyPayment sample_runtime 1700000100000 (Some ''cwlx3k2a9f0abc'')
             (Some ''success'') None sample_store)) =
   (Inl (AlreadyProcessed ''success''),
    snd (verifyPayment sample_runtime 1700000100000 (Some ''cwlx3k2a9f0abc'')
           (Some ''success'') None sample_store))"
proof -
  have ne: "(''success''::string) \<noteq> []" by simp
  have ok: "fst (verifyPayment sample_runtime 1700000100000 (Some ''cwlx3k2a9f0abc'')
      (Some ''success'') None sample_store) =
     Inr \<lparr>vr_success = True, vr_message = ''Payment '' @ ''success'',
          vr_tid = ''cwlx3k2a9f0abc'', vr_status = ''success'', vr_amount = Finite 50 0\<rparr>"
    by (rule sample_verify(1) [OF ne])
  have final: "str (Some ''success'') \<noteq> ''pending''" by simp
  from verify_twice [OF ok final, of 1700000200000 "Some ''failed''" None]
  show ?thesis by auto
qed

text \<open>
  The claim as the specification states it (for any reported status values) fails: a call
  reporting \<^verbatim>\<open>pending\<close> succeeds and leaves the transaction \<^verbatim>\<open>pending\<close>, so the
  next call succeeds as well.
\<close>

theorem verify_twice_counterexample:
  "fst (verifyPayment sample_runtime 1700000100000 (Some ''cwlx3k2a9f0abc'') (Some ''pending'')
          None sample_store) =
     Inr \<lparr>vr_success = True, vr_message = ''Payment pending'', vr_tid = ''cwlx3k2a9f0abc'',
          vr_status = ''pending'', vr_amount = Finite 50 0\<rparr>
   \<and> fst (verifyPayment sample_runtime 1700000200000 (Some ''cwlx3k2a9f0abc'') (Some ''success'')
          None
          (snd (verifyPayment sample_runtime 1700000100000 (Some ''cwlx3k2a9f0abc'')
                  (Some ''pending'') None sample_store))) =
     Inr \<lparr>vr_success = True, vr_message = ''Payment success'', vr_tid = ''cwlx3k2a9f0abc'',
          vr_status = ''success'', vr_amount = Finite 50 0\<rparr>"
proof -
  have first: "(''pending''::string) \<noteq> []" by simp
  note found = sample_verify(2) [OF first, of 1700000100000]
  show ?thesis
    by (simp add: sample_verify(1) [OF first] verifyPayment_found [OF found] sample_fields Let_def)
qed

section \<open>Expiry on read\<close>

text \<open>
  After a read that expires a transaction, \<open>verifyPayment\<close> runs its tests in the order
  of the handler: status missing, signature, status of the transaction. None of them
  succeeds, and the store stays as the read left it.
\<close>

lemma verify_after_expiring_read:
  assumes found: "findOne (transactions s) k = Some t" and k: "k \<noteq> []"
    and pending: "transaction.status t = ''pending''" and elapsed: "expires t < now"
  shows "verifyPayment rt now' (Some k) sf sgf (snd (checkPaymentStatus now (Some k) s)) =
           (Inl (if \<not> present sf then TidAndStatusRequired
                 else if present sgf \<and> str sgf \<noteq> createSignature rt (payload t)
                 then InvalidSignature
                 else AlreadyProcessed ''expired''),
            snd (checkPaymentStatus now (Some k) s))"
proof -
  let ?t' = "t\<lparr>transaction.status := ''expired''\<rparr>"
  have tid: "tid ?t' = k" using findOne_tid [OF found] by simp
  have s': "snd (checkPaymentStatus now (Some k) s) = save_transaction ?t' s"
    using found k pending elapsed by (simp add: checkPaymentStatus_def)
  have found': "findOne (transactions (snd (checkPaymentStatus now (Some k) s))) k = Some ?t'"
    using findOne_replace_first [OF found tid] by (simp add: s')
  show ?thesis
    by (simp add: verifyPayment_found [OF found' k])
qed

text \<open>
  Claim C3. For a transaction that is \<^verbatim>\<open>pending\<close> and whose \<open>expires\<close> lies before
  \<open>now\<close>, \<open>checkPaymentStatus\<close> answers with the view showing \<^verbatim>\<open>expired\<close>, stores the
  transaction with status \<^verbatim>\<open>expired\<close> (all other fields as they were) and issues one
  \<^verbatim>\<open>save()\<close>. A \<open>verifyPayment\<close> call on the transaction afterwards fails with 400
  \<^verbatim>\<open>Transaction already expired\<close> and changes nothing. The call is one that reaches the
  test of the transaction's status: it carries a status and, if it carries a signature,
  the MAC of the stored payload; the handler rejects any other call before it looks at the
  transaction's status.
\<close>

theorem expiry_read_then_verify:
  assumes found: "findOne (transactions s) k = Some t" and k: "k \<noteq> []"
    and pending: "transaction.status t = ''pending''" and elapsed: "expires t < now"
    and reported: "present sf"
    and signature_ok: "\<not> present sgf \<or> str sgf = createSignature rt (payload t)"
  shows "fst (checkPaymentStatus now (Some k) s) =
           Inr \<lparr>sr_tid = tid t, sr_status = ''expired'', sr_amount = amount t,
                sr_payType = payType t, sr_upi = upi t, sr_createdAt = createdAt t,
                sr_completedAt = completedAt t\<rparr>
       \<and> findOne (transactions (snd (checkPaymentStatus now (Some k) s))) k =
           Some (t\<lparr>transaction.status := ''expired''\<rparr>)
       \<and> saves (snd (checkPaymentStatus now (Some k) s)) = saves s @ [Transaction_save k]
       \<and> verifyPayment rt now' (Some k) sf sgf (snd (checkPaymentStatus now (Some k) s)) =
           (Inl (AlreadyProcessed ''expired''), snd (checkPaymentStatus now (Some k) s))
       \<and> http_status (AlreadyProcessed ''expired'') = 400
       \<and> error_text (AlreadyProcessed ''expired'') = ''Transaction already expired''"
proof -
  let ?t' = "t\<lparr>transaction.status := ''expired''\<rparr>"
  have tid: "tid ?t' = k" using findOne_tid [OF found] by simp
  have s': "snd (checkPaymentStatus now (Some k) s) = save_transaction ?t' s"
    using found k pending elapsed by (simp add: checkPaymentStatus_def)
  have found': "findOne (transactions (snd (checkPaymentStatus now (Some k) s))) k = Some ?t'"
    using findOne_replace_first [OF found tid] by (simp add: s')
  have view: "fst (checkPaymentStatus now (Some k) s) =
           Inr \<lparr>sr_tid = tid t, sr_status = ''expired'', sr_amount = amount t,
                sr_payType = payType t, sr_upi = upi t, sr_createdAt = createdAt t,
                sr_completedAt = completedAt t\<rparr>"
    using found k pending elapsed by (simp add: checkPaymentStatus_def)
  have log: "saves (snd (checkPaymentStatus now (Some k) s)) = saves s @ [Transaction_save k]"
    using tid by (simp add: s')
  have verify: "verifyPayment rt now' (Some k) sf sgf (snd (checkPaymentStatus now (Some k) s)) =
           (Inl (AlreadyProcessed ''expired''), snd (checkPaymentStatus now (Some k) s))"
    using reported signature_ok
    by (auto simp: verify_after_expiring_read [OF found k pending elapsed])
  show ?thesis
    using view found' log verify by simp
qed

text \<open>
  An instance: the sample transaction read 100 seconds after its expiry, then verified
  without a signature, and verified with the MAC of its payload.
\<close>

theorem expiry_read_then_verify_witness:
  "fst (checkPaymentStatus 1700000700000 (Some ''cwlx3k2a9f0abc'') sample_store) =
     Inr \<lparr>sr_tid = ''cwlx3k2a9f0abc'', sr_status = ''expired'', sr_amount = Finite 50 0,
          sr_payType = ''paytm'', sr_upi = ''mstandwafuelcentre@sbi'',
          sr_createdAt = 1700000000123, sr_completedAt = None\<rparr>
   \<and> fst (verifyPayment sample_runtime 1700000800000 (Some ''cwlx3k2a9f0abc'') (Some ''success'')
          None
          (snd (checkPaymentStatus 1700000700000 (Some ''cwlx3k2a9f0abc'') sample_store))) =
     Inl (AlreadyProcessed ''expired'')
   \<and> fst (verifyPayment sample_runtime 1700000800000 (Some ''cwlx3k2a9f0abc'') (Some ''success'')
          (Some ''3d3033656d795f73'')
          (snd (checkPaymentStatus 1700000700000 (Some ''cwlx3k2a9f0abc'') sample_store))) =
     Inl (AlreadyProcessed ''expired'')"
proof -
  have k: "''cwlx3k2a9f0abc'' \<noteq> []" by simp
  have elapsed: "expires sample_transaction < 1700000700000"
    by (simp add: sample_fields)
  have reported: "present (Some ''success'')" by simp
  have unsigned: "\<not> present None
      \<or> str None = createSignature sample_runtime (payload sample_transaction)"
    by simp
  have signed: "\<not> present (Some ''3d3033656d795f73'')
      \<or> str (Some ''3d3033656d795f73'') =
          createSignature sample_runtime (payload sample_transaction)"
    by (simp add: sample_fields sample_signature)
  note first = expiry_read_then_verify [OF sample_findOne k sample_fields(2) elapsed reported
      unsigned, of 1700000800000]
  note second = expiry_read_then_verify [OF sample_findOne k sample_fields(2) elapsed reported
      signed, of 1700000800000]
  have view: "fst (checkPaymentStatus 1700000700000 (Some ''cwlx3k2a9f0abc'') sample_store) =
     Inr \<lparr>sr_tid = ''cwlx3k2a9f0abc'', sr_status = ''expired'', sr_amount = Finite 50 0,
          sr_payType = ''paytm'', sr_upi = ''mstandwafuelcentre@sbi'',
          sr_createdAt = 1700000000123, sr_completedAt = None\<rparr>"
    using first [THEN conjunct1] by (simp add: sample_transaction_def)
  from view first [THEN conjunct2, THEN conjunct2, THEN conjunct2, THEN conjunct1]
    second [THEN conjunct2, THEN conjunct2, THEN conjunct2, THEN conjunct1]
  show ?thesis by simp
qed

section \<open>Signatures\<close>



section \<open>Order reconciliation\<close>

text \<open>
  Claim C5. When \<open>verifyPayment\<close> succeeds on a transaction whose \<open>orderId\<close> is set and
  whose order exists: reported \<^verbatim>\<open>success\<close> sets the order's \<open>paymentStatus\<close> to
  \<^verbatim>\<open>paid\<close> and its \<open>status\<close> to \<^verbatim>\<open>confirmed\<close>; reported \<^verbatim>\<open>failed\<close> sets them to
  \<^verbatim>\<open>failed\<close> and \<^verbatim>\<open>cancelled\<close>; any other reported value leaves every order as it was.
  In all three cases the transaction takes the reported status and the completion time, and
  no other order changes.
\<close>

theorem verify_reconciles_order:
  assumes found: "findOne (transactions s) k = Some t"
    and ok: "fst (verifyPayment rt now (Some k) (Some st) sgf s) = Inr r"
    and oid: "orderId t = Some oid" "oid \<noteq> []"
    and ord: "orders s oid = Some ord"
  shows "(st = ''success'' \<longrightarrow>
            orders (snd (verifyPayment rt now (Some k) (Some st) sgf s)) =
              (orders s)(oid \<mapsto> ord\<lparr>paymentStatus := ''paid'', order.status := ''confirmed''\<rparr>))
       \<and> (st = ''failed'' \<longrightarrow>
            orders (snd (verifyPayment rt now (Some k) (Some st) sgf s)) =
              (orders s)(oid \<mapsto> ord\<lparr>paymentStatus := ''failed'', order.status := ''cancelled''\<rparr>))
       \<and> (st \<noteq> ''success'' \<and> st \<noteq> ''failed'' \<longrightarrow>
            orders (snd (verifyPayment rt now (Some k) (Some st) sgf s)) = orders s)
       \<and> findOne (transactions (snd (verifyPayment rt now (Some k) (Some st) sgf s))) k =
            Some (t\<lparr>transaction.status := st, completedAt := Some now\<rparr>)
       \<and> vr_status r = st"
proof -
  from verifyPayment_success_found [OF ok] found
  have k: "k \<noteq> []" and st: "st \<noteq> []" and pending: "transaction.status t = ''pending''"
    by auto
  have sig: "\<not> (present sgf \<and> str sgf \<noteq> createSignature rt (payload t))"
    using ok pending k st by (auto simp: verifyPayment_found [OF found k] split: if_splits)
  have tid: "tid (t\<lparr>transaction.status := st, completedAt := Some now\<rparr>) = k"
    using findOne_tid [OF found] by simp
  have upd: "(orders s)(oid \<mapsto> ord) = orders s"
    using ord by (rule map_upd_triv)
  show ?thesis
    using ok pending st sig oid ord upd findOne_replace_first [OF found tid]
    by (auto simp: verifyPayment_found [OF found k] Let_def reconcile_def)
qed

text \<open>An instance: the sample transaction, linked to the sample order, verified as \<^verbatim>\<open>success\<close>.\<close>

theorem verify_reconciles_order_witness:
  "orders (snd (verifyPayment sample_runtime 1700000100000 (Some ''cwlx3k2a9f0abc'')
      (Some ''success'') None sample_store)) ''order1'' =
     Some \<lparr>paymentStatus = ''paid'', status = ''confirmed''\<rparr>
   \<and> findOne (transactions (snd (verifyPayment sample_runtime 1700000100000
        (Some ''cwlx3k2a9f0abc'') (Some ''success'') None sample_store))) ''cwlx3k2a9f0abc'' =
     Some (sample_transaction\<lparr>transaction.status := ''success'',
             completedAt := Some 1700000100000\<rparr>)"
proof -
  have ne: "(''success''::string) \<noteq> []" and oid: "''order1'' \<noteq> []" by simp_all
  note ok = sample_verify(1) [OF ne, of 1700000100000]
  from verify_reconciles_order [OF sample_findOne ok sample_fields(5) oid
      sample_store_fields(2)]
  show ?thesis by (simp add: sample_order_def)
qed

section \<open>Failing verification\<close>

text \<open>
  Claim C6. Every failing call of \<open>verifyPayment\<close> (missing fields, transaction not found,
  invalid signature, already processed) returns the store exactly as it received it: no
  field of any transaction, no order and not even the list of \<^verbatim>\<open>save()\<close> calls
  differs.
\<close>

theorem verify_failure_leaves_store:
  "fst (verifyPayment rt now tid_field status_field signature_field s) = Inl e
   \<Longrightarrow> snd (verifyPayment rt now tid_field status_field signature_field s) = s"
  by (auto simp: verifyPayment_def Let_def split: option.splits if_splits)

text \<open>An instance: a verification of the sample transaction with a wrong signature.\<close>

theorem verify_failure_leaves_store_witness:
  "fst (verifyPayment sample_runtime 1700000300000 (Some ''cwlx3k2a9f0abc'') (Some ''success'')
          (Some ''00'') sample_store) = Inl InvalidSignature
   \<and> snd (verifyPayment sample_runtime 1700000300000 (Some ''cwlx3k2a9f0abc'') (Some ''success'')
          (Some ''00'') sample_store) = sample_store"
proof -
  have payload: "payload sample_transaction = ''e30=''"
    by (simp add: sample_transaction_def)
  have failing:
    "fst (verifyPayment sample_runtime 1700000300000 (Some ''cwlx3k2a9f0abc'') (Some ''success'')
            (Some ''00'') sample_store) = Inl InvalidSignature"
    by (simp add: verifyPayment_def sample_findOne payload sample_signature present_def str_def)
  from failing verify_failure_leaves_store [OF failing] show ?thesis by simp
qed

section \<open>Validation of a creation request\<close>

text \<open>
  Claim C7, as the code has it. \<open>createPayment\<close> fails with 400
  \<^verbatim>\<open>{error: "Invalid payload"}\<close> exactly when \<open>amount\<close> or \<open>payType\<close> is falsy (absent,
  \<^verbatim>\<open>null\<close>, \<^verbatim>\<open>false\<close>, 0, \<^verbatim>\<open>NaN\<close> or the empty string). When \<open>amount\<close> is truthy and
  has a string conversion, and \<open>payType\<close> is a string, it fails with 400
  \<^verbatim>\<open>{error: "Unsupported payment type"}\<close> exactly when the string is not empty and, in
  lower case and with surrounding white space removed, is neither \<^verbatim>\<open>phonepe\<close> nor
  \<^verbatim>\<open>paytm\<close>; and it succeeds exactly when that form is \<^verbatim>\<open>phonepe\<close> or \<^verbatim>\<open>paytm\<close>. A
  request with a truthy \<open>amount\<close> and such a \<open>payType\<close> never fails with either error.
  A request with both fields truthy whose \<open>amount\<close> has no string conversion, or whose
  \<open>payType\<close> is not a string, is answered 500 whatever the payment type.
\<close>

theorem createPayment_validation:
  "(fst (createPayment rt d a p oid uid s) = Inl InvalidPayload
      \<longleftrightarrow> \<not> truthy a \<or> \<not> truthy p)
   \<and> (truthy a \<and> parseFloat rt a \<noteq> None \<longrightarrow>
        (fst (createPayment rt d a (JString t) oid uid s) = Inl UnsupportedPaymentType
           \<longleftrightarrow> t \<noteq> [] \<and> trim (toLowerCase t) \<noteq> ''phonepe''
               \<and> trim (toLowerCase t) \<noteq> ''paytm'')
      \<and> ((\<exists>r. fst (createPayment rt d a (JString t) oid uid s) = Inr r)
           \<longleftrightarrow> trim (toLowerCase t) = ''phonepe'' \<or> trim (toLowerCase t) = ''paytm''))
   \<and> (truthy a \<and> (trim (toLowerCase t) = ''phonepe'' \<or> trim (toLowerCase t) = ''paytm'') \<longrightarrow>
        fst (createPayment rt d a (JString t) oid uid s) \<noteq> Inl InvalidPayload
      \<and> fst (createPayment rt d a (JString t) oid uid s) \<noteq> Inl UnsupportedPaymentType)
   \<and> (truthy a \<and> truthy p \<and> (parseFloat rt a = None \<or> (\<forall>u. p \<noteq> JString u)) \<longrightarrow>
        fst (createPayment rt d a p oid uid s) = Inl FailedToCreatePayment)
   \<and> http_status InvalidPayload = 400 \<and> error_text InvalidPayload = ''Invalid payload''
   \<and> http_status UnsupportedPaymentType = 400
   \<and> error_text UnsupportedPaymentType = ''Unsupported payment type''
   \<and> http_status FailedToCreatePayment = 500"
proof -
  have invalid: "fst (createPayment rt d a p oid uid s) = Inl InvalidPayload
      \<longleftrightarrow> \<not> truthy a \<or> \<not> truthy p"
    by (cases p) (auto simp: createPayment_def Let_def split: prod.splits option.splits)
  have unsupported: "fst (createPayment rt d a (JString t) oid uid s) = Inl UnsupportedPaymentType
           \<longleftrightarrow> t \<noteq> [] \<and> trim (toLowerCase t) \<noteq> ''phonepe''
               \<and> trim (toLowerCase t) \<noteq> ''paytm''"
    if "truthy a" and "parseFloat rt a \<noteq> None"
    using that by (auto simp: createPayment_def Let_def split: prod.splits)
  have accepted: "(\<exists>r. fst (createPayment rt d a (JString t) oid uid s) = Inr r)
           \<longleftrightarrow> trim (toLowerCase t) = ''phonepe'' \<or> trim (toLowerCase t) = ''paytm''"
    if a: "truthy a" and "parseFloat rt a \<noteq> None"
  proof
    assume "\<exists>r. fst (createPayment rt d a (JString t) oid uid s) = Inr r"
    then obtain r where "fst (createPayment rt d a (JString t) oid uid s) = Inr r" ..
    from createPayment_Inr [OF this]
    show "trim (toLowerCase t) = ''phonepe'' \<or> trim (toLowerCase t) = ''paytm''" by simp
  next
    from that obtain x where x: "parseFloat rt a = Some x" by auto
    assume "trim (toLowerCase t) = ''phonepe'' \<or> trim (toLowerCase t) = ''paytm''"
    then show "\<exists>r. fst (createPayment rt d a (JString t) oid uid s) = Inr r"
    proof
      assume "trim (toLowerCase t) = ''phonepe''"
      from createPayment_phonepe [OF a x this, of d oid uid s]
      show ?thesis by (auto split: prod.splits)
    next
      assume "trim (toLowerCase t) = ''paytm''"
      from createPayment_paytm [OF a x this, of d oid uid s]
      show ?thesis by (auto split: prod.splits)
    qed
  qed
  have neither: "fst (createPayment rt d a (JString t) oid uid s) \<noteq> Inl InvalidPayload
      \<and> fst (createPayment rt d a (JString t) oid uid s) \<noteq> Inl UnsupportedPaymentType"
    if "truthy a" and "trim (toLowerCase t) = ''phonepe'' \<or> trim (toLowerCase t) = ''paytm''"
    using that supported_nonempty [of t]
    by (auto simp: createPayment_def Let_def split: prod.splits option.splits)
  have thrown: "fst (createPayment rt d a p oid uid s) = Inl FailedToCreatePayment"
    if "truthy a" and "truthy p" and "parseFloat rt a = None \<or> (\<forall>u. p \<noteq> JString u)"
    using that by (cases p) (auto simp: createPayment_def split: option.splits)
  show ?thesis using invalid unsupported accepted neither thrown by simp
qed

text \<open>
  An instance of each failure and of a success: amount 0 with \<^verbatim>\<open>paytm\<close>; amount 50
  with \<^verbatim>\<open>upi\<close>; the amount \<^verbatim>\<open>{"toString": 1}\<close> with \<^verbatim>\<open>upi\<close>; and the amount
  \<^verbatim>\<open>50\<close> after a no-break space (U+00A0) with the type \<^verbatim>\<open>PayTM\<close> between a no-break
  space and a line separator (U+2028).
\<close>

theorem createPayment_validation_witness:
  "fst (createPayment sample_runtime sample_draws (JNumber (Finite 0 0)) (JString ''paytm'')
          None None empty_store) = Inl InvalidPayload
   \<and> fst (createPayment sample_runtime sample_draws (JNumber (Finite 50 0)) (JString ''upi'')
          None None empty_store) = Inl UnsupportedPaymentType
   \<and> fst (createPayment sample_runtime sample_draws (JObject [(''toString'', JNumber (Finite 1 0))])
          (JString ''upi'') None None empty_store) = Inl FailedToCreatePayment
   \<and> (\<exists>r. fst (createPayment sample_runtime sample_draws
               (JString ([CHR 0xC2, CHR 0xA0] @ ''50''))
               (JString ([CHR 0xC2, CHR 0xA0] @ ''PayTM'' @ [CHR 0xE2, CHR 0x80, CHR 0xA8]))
               None None empty_store) = Inr r)"
proof -
  have falsy: "\<not> truthy (JNumber (Finite 0 0)) \<or> \<not> truthy (JString ''paytm'')" by simp
  have a: "truthy (JNumber (Finite 50 0)) \<and> parseFloat sample_runtime (JNumber (Finite 50 0)) \<noteq> None"
    by (simp add: parseFloat_def)
  have other: "''upi'' \<noteq> [] \<and> trim (toLowerCase ''upi'') \<noteq> ''phonepe''
      \<and> trim (toLowerCase ''upi'') \<noteq> ''paytm''"
    by (simp add: sample_upi_type)
  have object: "truthy (JObject [(''toString'', JNumber (Finite 1 0))]) \<and> truthy (JString ''upi'')
      \<and> (parseFloat sample_runtime (JObject [(''toString'', JNumber (Finite 1 0))]) = None
          \<or> (\<forall>u. JString ''upi'' \<noteq> JString u))"
    by (simp add: parseFloat_def)
  have b: "truthy (JString ([CHR 0xC2, CHR 0xA0] @ ''50''))
      \<and> parseFloat sample_runtime (JString ([CHR 0xC2, CHR 0xA0] @ ''50'')) \<noteq> None"
    by (simp add: parseFloat_def)
  have spaced: "trim (toLowerCase ([CHR 0xC2, CHR 0xA0] @ ''PayTM'' @ [CHR 0xE2, CHR 0x80, CHR 0xA8]))
        = ''phonepe''
      \<or> trim (toLowerCase ([CHR 0xC2, CHR 0xA0] @ ''PayTM'' @ [CHR 0xE2, CHR 0x80, CHR 0xA8]))
        = ''paytm''"
    by (rule disjI2) (rule sample_unicode_type)
  note invalid = createPayment_validation [of sample_runtime sample_draws
      "JNumber (Finite 0 0)" "JString ''paytm''" None None empty_store,
      THEN conjunct1, THEN iffD2, OF falsy]
  note unsupported = createPayment_validation [of sample_runtime sample_draws
      "JNumber (Finite 50 0)" "JString ''upi''" None None empty_store "''upi''",
      THEN conjunct2, THEN conjunct1, rule_format, OF a, THEN conjunct1, THEN iffD2, OF other]
  note thrown = createPayment_validation [of sample_runtime sample_draws
      "JObject [(''toString'', JNumber (Finite 1 0))]" "JString ''upi''" None None empty_store,
      THEN conjunct2, THEN conjunct2, THEN conjunct2, THEN conjunct1, rule_format, OF object]
  note accepted = createPayment_validation [of sample_runtime sample_draws
      "JString ([CHR 0xC2, CHR 0xA0] @ ''50'')" "JString ''paytm''" None None empty_store
      "[CHR 0xC2, CHR 0xA0] @ ''PayTM'' @ [CHR 0xE2, CHR 0x80, CHR 0xA8]",
      THEN conjunct2, THEN conjunct1, rule_format, OF b, THEN conjunct2, THEN iffD2, OF spaced]
  from invalid unsupported thrown accepted show ?thesis by blast
qed

text \<open>
  The claim as the specification states it fails in five ways: amount 0 is present and
  yet answered \<^verbatim>\<open>Invalid payload\<close>; an absent amount with the unsupported type
  \<^verbatim>\<open>upi\<close> is answered \<^verbatim>\<open>Invalid payload\<close>, not \<^verbatim>\<open>Unsupported payment type\<close>; the
  number 5 as \<open>payType\<close> is answered 500; the amount \<^verbatim>\<open>{"toString": 1}\<close> with the
  unsupported type \<^verbatim>\<open>upi\<close> is answered 500; and \<^verbatim>\<open>" PayTM "\<close>, which differs from
  \<^verbatim>\<open>paytm\<close> by more than case, is accepted.
\<close>

theorem createPayment_validation_counterexample:
  "fst (createPayment sample_runtime sample_draws (JNumber (Finite 0 0)) (JString ''paytm'')
          None None empty_store) = Inl InvalidPayload
   \<and> fst (createPayment sample_runtime sample_draws JUndefined (JString ''upi'')
          None None empty_store) = Inl InvalidPayload
   \<and> fst (createPayment sample_runtime sample_draws (JNumber (Finite 50 0))
          (JNumber (Finite 5 0)) None None empty_store) = Inl FailedToCreatePayment
   \<and> fst (createPayment sample_runtime sample_draws (JObject [(''toString'', JNumber (Finite 1 0))])
          (JString ''upi'') None None empty_store) = Inl FailedToCreatePayment
   \<and> fst (createPayment sample_runtime sample_draws (JNumber (Finite 50 0))
          (JString '' PayTM '') None None empty_store) \<noteq> Inl UnsupportedPaymentType"
proof -
  have a: "truthy (JNumber (Finite 50 0))" by simp
  have x: "parseFloat sample_runtime (JNumber (Finite 50 0)) = Some (Finite 50 0)"
    by (simp add: parseFloat_def)
  have spaced: "fst (createPayment sample_runtime sample_draws (JNumber (Finite 50 0))
          (JString '' PayTM '') None None empty_store) \<noteq> Inl UnsupportedPaymentType"
    by (simp add: createPayment_paytm [OF a x sample_spaced_type] split: prod.splits)
  show ?thesis
    using spaced by (simp add: createPayment_def parseFloat_def)
qed

section \<open>Deep links\<close>

text \<open>
  Claim C8, as the code has it. On success the provider is \<^verbatim>\<open>phonepe\<close> or \<^verbatim>\<open>paytm\<close>
  and the amount has been parsed. For \<^verbatim>\<open>phonepe\<close> the payload returned is the base64
  form of the JSON text of the payload object (handle, note and \<open>initialAmount\<close>), and the
  link is \<^verbatim>\<open>phonepe://native?data=<P>&id=p2ppayment\<close> with \<open>P\<close> the
  \<^verbatim>\<open>encodeURIComponent\<close> form of that base64 text. For \<^verbatim>\<open>paytm\<close> the link is
  \<^verbatim>\<open>paytmmp://cash_wallet?pa=<H>&am=<A>&tn=<N>&pn=<H>&mc=&cu=INR&url=&mode=&purpose=&orgid=&sign=&featuretype=money_transfer\<close>
  with the parameters in this order, where \<open>H\<close>, \<open>A\<close> and \<open>N\<close> are the
  \<^verbatim>\<open>application/x-www-form-urlencoded\<close> forms of the handle, of the printed parsed
  amount and of the note: they are not substituted as they are.
\<close>

theorem createPayment_deep_link:
  assumes "fst (createPayment rt d a p oid uid s) = Inr r"
  shows "\<exists>t x. p = JString t \<and> parseFloat rt a = Some x
     \<and> (trim (toLowerCase t) = ''phonepe'' \<or> trim (toLowerCase t) = ''paytm'')
     \<and> (trim (toLowerCase t) = ''phonepe'' \<longrightarrow>
          res_payload r =
            base64 (JSON_stringify rt
              (phonepe_payloadJson (MERCHANT_UPI rt) (generateNote rt d) x))
        \<and> res_redirect_url r =
            ''phonepe://native?data='' @
            encodeURIComponent
              (base64 (JSON_stringify rt
                 (phonepe_payloadJson (MERCHANT_UPI rt) (generateNote rt d) x))) @
            ''&id=p2ppayment'')
     \<and> (trim (toLowerCase t) = ''paytm'' \<longrightarrow>
          res_redirect_url r =
            ''paytmmp://cash_wallet?pa='' @ form_urlencode (MERCHANT_UPI rt) @
            ''&am='' @ form_urlencode (Number_toString rt x) @
            ''&tn='' @ form_urlencode (generateNote rt d) @
            ''&pn='' @ form_urlencode (MERCHANT_UPI rt) @
            ''&mc=&cu=INR&url=&mode=&purpose=&orgid=&sign=&featuretype=money_transfer'')"
proof -
  from createPayment_Inr [OF assms] obtain t x where a: "truthy a"
    and x: "parseFloat rt a = Some x" and p: "p = JString t"
    and ty: "trim (toLowerCase t) = ''phonepe'' \<or> trim (toLowerCase t) = ''paytm''"
    by blast
  have phonepe: "res_payload r =
        base64 (JSON_stringify rt
          (phonepe_payloadJson (MERCHANT_UPI rt) (generateNote rt d) x))
      \<and> res_redirect_url r =
        ''phonepe://native?data='' @
        encodeURIComponent
          (base64 (JSON_stringify rt
             (phonepe_payloadJson (MERCHANT_UPI rt) (generateNote rt d) x))) @
        ''&id=p2ppayment''"
    if "trim (toLowerCase t) = ''phonepe''"
    using assms createPayment_phonepe [OF a x that, of d oid uid s]
    by (auto simp: p phonepe_branch_def Let_def)
  have paytm: "res_redirect_url r =
      ''paytmmp://cash_wallet?pa='' @ form_urlencode (MERCHANT_UPI rt) @
      ''&am='' @ form_urlencode (Number_toString rt x) @
      ''&tn='' @ form_urlencode (generateNote rt d) @
      ''&pn='' @ form_urlencode (MERCHANT_UPI rt) @
      ''&mc=&cu=INR&url=&mode=&purpose=&orgid=&sign=&featuretype=money_transfer''"
    if "trim (toLowerCase t) = ''paytm''"
    using assms createPayment_paytm [OF a x that, of d oid uid s]
    by (auto simp: p paytm_branch_def Let_def paytm_query_string)
  from p x ty phonepe paytm show ?thesis by blast
qed

text \<open>
  An instance of each provider, for amount 50, handle \<^verbatim>\<open>mstandwafuelcentre@sbi\<close> and
  note \<^verbatim>\<open>s550\<close>. The PhonePe payload is the base64 form of
  \<^verbatim>\<open>{"contact":{"cbsName":"","nickName":"","vpa":"mstandwafuelcentre@sbi","type":"VPA"},"p2pPaymentCheckoutParams":{"note":"s550","isByDefaultKnownContact":true,"initialAmount":5000,"currency":"INR","checkoutType":"DEFAULT","transactionContext":"p2p"}}\<close>.
\<close>

theorem createPayment_deep_link_witness:
  "map_sum id (\<lambda>r. (res_payload r, res_redirect_url r))
     (fst (createPayment sample_runtime sample_draws (JNumber (Finite 50 0))
        (JString ''PhonePe'') None None empty_store)) =
     Inr (''eyJjb250YWN0Ijp7ImNic05hbWUiOiIiLCJuaWNrTmFtZSI6IiIsInZwYSI6Im1zdGFuZHdhZnVlbGNlbnRyZUBzYmkiLCJ0eXBlIjoiVlBBIn0sInAycFBheW1lbnRDaGVja291dFBhcmFtcyI6eyJub3RlIjoiczU1MCIsImlzQnlEZWZhdWx0S25vd25Db250YWN0Ijp0cnVlLCJpbml0aWFsQW1vdW50Ijo1MDAwLCJjdXJyZW5jeSI6IklOUiIsImNoZWNrb3V0VHlwZSI6IkRFRkFVTFQiLCJ0cmFuc2FjdGlvbkNvbnRleHQiOiJwMnAifX0='',
          ''phonepe://native?data=eyJjb250YWN0Ijp7ImNic05hbWUiOiIiLCJuaWNrTmFtZSI6IiIsInZwYSI6Im1zdGFuZHdhZnVlbGNlbnRyZUBzYmkiLCJ0eXBlIjoiVlBBIn0sInAycFBheW1lbnRDaGVja291dFBhcmFtcyI6eyJub3RlIjoiczU1MCIsImlzQnlEZWZhdWx0S25vd25Db250YWN0Ijp0cnVlLCJpbml0aWFsQW1vdW50Ijo1MDAwLCJjdXJyZW5jeSI6IklOUiIsImNoZWNrb3V0VHlwZSI6IkRFRkFVTFQiLCJ0cmFuc2FjdGlvbkNvbnRleHQiOiJwMnAifX0%3D&id=p2ppayment'')
   \<and> map_sum id res_redirect_url
     (fst (createPayment sample_runtime sample_draws (JNumber (Finite 50 0)) (JString ''paytm'')
        None None empty_store)) =
     Inr (''paytmmp://cash_wallet?pa='' @ form_urlencode ''mstandwafuelcentre@sbi'' @
          ''&am='' @ form_urlencode ''50'' @ ''&tn='' @ form_urlencode ''s550'' @
          ''&pn='' @ form_urlencode ''mstandwafuelcentre@sbi'' @
          ''&mc=&cu=INR&url=&mode=&purpose=&orgid=&sign=&featuretype=money_transfer'')"
proof -
  have a: "truthy (JNumber (Finite 50 0))" by simp
  have x: "parseFloat sample_runtime (JNumber (Finite 50 0)) = Some (Finite 50 0)"
    by (simp add: parseFloat_def)
  have "\<exists>r. fst (createPayment sample_runtime sample_draws (JNumber (Finite 50 0))
        (JString ''PhonePe'') None None empty_store) = Inr r"
    by (simp add: createPayment_phonepe [OF a x sample_phonepe_type] split: prod.splits)
  then obtain r1 where ok1: "fst (createPayment sample_runtime sample_draws
        (JNumber (Finite 50 0)) (JString ''PhonePe'') None None empty_store) = Inr r1" ..
  have "\<exists>r. fst (createPayment sample_runtime sample_draws (JNumber (Finite 50 0))
        (JString ''paytm'') None None empty_store) = Inr r"
    by (simp add: createPayment_paytm [OF a x sample_paytm_type] split: prod.splits)
  then obtain r2 where ok2: "fst (createPayment sample_runtime sample_draws
        (JNumber (Finite 50 0)) (JString ''paytm'') None None empty_store) = Inr r2" ..
  have amount: "Number_toString sample_runtime (Finite 50 0) = ''50''"
    by (simp add: Number_toString_def decimal_def digit_char_def)
  have handle: "MERCHANT_UPI sample_runtime = ''mstandwafuelcentre@sbi''"
    by (simp add: sample_runtime_def)
  from createPayment_deep_link [OF ok1]
  have first: "res_payload r1 =
        base64 (JSON_stringify sample_runtime
          (phonepe_payloadJson ''mstandwafuelcentre@sbi'' ''s550'' (Finite 50 0)))
      \<and> res_redirect_url r1 =
        ''phonepe://native?data='' @
        encodeURIComponent
          (base64 (JSON_stringify sample_runtime
             (phonepe_payloadJson ''mstandwafuelcentre@sbi'' ''s550'' (Finite 50 0)))) @
        ''&id=p2ppayment''"
    by (simp add: sample_phonepe_type x handle sample_note)
  from createPayment_deep_link [OF ok2]
  have second: "res_redirect_url r2 =
      ''paytmmp://cash_wallet?pa='' @ form_urlencode ''mstandwafuelcentre@sbi'' @
      ''&am='' @ form_urlencode ''50'' @ ''&tn='' @ form_urlencode ''s550'' @
      ''&pn='' @ form_urlencode ''mstandwafuelcentre@sbi'' @
      ''&mc=&cu=INR&url=&mode=&purpose=&orgid=&sign=&featuretype=money_transfer''"
    by (simp add: sample_paytm_type x amount handle sample_note)
  from first second show ?thesis
    by (simp only: ok1 ok2 sample_phonepe_payload sample_phonepe_data map_sum.simps id_apply
        append.simps)
qed

text \<open>
  The claim as the specification states it fails for the handle of the first version of
  the controller: \<^verbatim>\<open>mstandwafuelcentre@sbi\<close> appears in the link as
  \<^verbatim>\<open>mstandwafuelcentre%40sbi\<close>, so the link is not the specified format with the handle
  put in.
\<close>

theorem createPayment_deep_link_counterexample:
  "map_sum id res_redirect_url
     (fst (createPayment sample_runtime sample_draws (JNumber (Finite 50 0)) (JString ''paytm'')
        None None empty_store)) =
   Inr ''paytmmp://cash_wallet?pa=mstandwafuelcentre%40sbi&am=50&tn=s550&pn=mstandwafuelcentre%40sbi&mc=&cu=INR&url=&mode=&purpose=&orgid=&sign=&featuretype=money_transfer''
   \<and> ''paytmmp://cash_wallet?pa=mstandwafuelcentre%40sbi&am=50&tn=s550&pn=mstandwafuelcentre%40sbi&mc=&cu=INR&url=&mode=&purpose=&orgid=&sign=&featuretype=money_transfer''
       \<noteq> spec_paytm_link ''mstandwafuelcentre@sbi'' ''50'' ''s550''"
  by (simp add: sample_paytm_link sample_query_string spec_paytm_link_def)

section \<open>Minor units\<close>

text \<open>
  Claim C9 fails on the code. For the amount \<^verbatim>\<open>1.15\<close> (as the string \<^verbatim>\<open>"1.15"\<close>;
  the JSON number parses to the same binary64 value) \<^verbatim>\<open>parseFloat\<close> yields the binary64
  number nearest to 1.15, which lies below it; its product with 100 rounds to
  \<open>115 - 2 ^ -46\<close>, and \<^verbatim>\<open>Math.floor\<close> makes it 114. The PhonePe payload therefore
  carries \<^verbatim>\<open>"initialAmount":114\<close>, while the amount in minor units is 115. The same
  happens for 0.29 (28 instead of 29); for an amount such as 49.5, whose product with 100
  is exact, the result is the amount in minor units.
\<close>

theorem initialAmount_1_15:
  "parseFloat rt (JString ''1.15'') = Some (Finite 5179139571476070 (- 52))
   \<and> map_option initialAmount (parseFloat rt (JString ''1.15'')) = Some (number_of_int 114)
   \<and> integer_value (number_of_int 114) = Some 114
   \<and> map_option (phonepe_payloadJson handle n) (parseFloat rt (JString ''1.15'')) =
       Some (JObject
         [(''contact'', JObject
             [(''cbsName'', JString []), (''nickName'', JString []),
              (''vpa'', JString handle), (''type'', JString ''VPA'')]),
          (''p2pPaymentCheckoutParams'', JObject
             [(''note'', JString n),
              (''isByDefaultKnownContact'', JBoolean True),
              (''initialAmount'', JNumber (number_of_int 114)),
              (''currency'', JString ''INR''),
              (''checkoutType'', JString ''DEFAULT''),
              (''transactionContext'', JString ''p2p'')])])
   \<and> map_option (\<lambda>x. JSON_stringify rt (JNumber (initialAmount x)))
        (parseFloat rt (JString ''1.15'')) = Some ''114''
   \<and> spec_minor_units (115 / 100) = 115
   \<and> map_option (\<lambda>x. integer_value (initialAmount x)) (parseFloat rt (JString ''0.29'')) =
        Some (Some 28)
   \<and> spec_minor_units (29 / 100) = 29
   \<and> map_option (\<lambda>x. integer_value (initialAmount x)) (parseFloat rt (JString ''49.5'')) =
        Some (Some 4950)
   \<and> spec_minor_units (495 / 10) = 4950"
proof -
  have amount: "parseFloat rt (JString ''1.15'') = Some (Finite 5179139571476070 (- 52))"
    by (simp add: parseFloat_def parseFloat_1_15)
  have paise: "initialAmount (Finite 5179139571476070 (- 52)) = number_of_int 114"
    by (simp only: initialAmount_def times_100_1_15 floor_1_15)
  have intval: "integer_value (number_of_int 114) = Some 114"
    by (simp add: number_114)
  have printed: "JSON_stringify rt (JNumber (number_of_int 114)) = ''114''"
    by (simp add: number_114 print_114)
  have minor: "spec_minor_units (115 / 100) = 115" "spec_minor_units (29 / 100) = 29"
    "spec_minor_units (495 / 10) = 4950"
    by (simp_all add: spec_minor_units_def)
  have others:
    "map_option (\<lambda>x. integer_value (initialAmount x)) (parseFloat rt (JString ''0.29'')) =
       Some (Some 28)"
    "map_option (\<lambda>x. integer_value (initialAmount x)) (parseFloat rt (JString ''49.5'')) =
       Some (Some 4950)"
    by (simp_all add: parseFloat_def initialAmount_other_amounts)
  show ?thesis
    by (simp only: amount paise intval printed minor others phonepe_payloadJson_def simp_thms
        option.map)
qed

section \<open>What a status read changes\<close>

text \<open>
  Claim C10. \<open>checkPaymentStatus\<close> keeps the number and order of the transactions; each
  transaction afterwards equals the one before except possibly in its \<open>status\<close>, and only
  the transaction addressed can differ at all; the orders are untouched. When the
  transaction addressed is not \<^verbatim>\<open>pending\<close>, or is \<^verbatim>\<open>pending\<close> and not yet past its
  \<open>expires\<close>, or does not exist, the whole store, the list of \<^verbatim>\<open>save()\<close> calls
  included, is as before.
\<close>

theorem checkPaymentStatus_frame:
  "length (transactions (snd (checkPaymentStatus now tf s))) = length (transactions s)
   \<and> (\<forall>i < length (transactions s).
         transactions (snd (checkPaymentStatus now tf s)) ! i =
           (transactions s ! i)\<lparr>transaction.status :=
              transaction.status (transactions (snd (checkPaymentStatus now tf s)) ! i)\<rparr>
         \<and> (transactions (snd (checkPaymentStatus now tf s)) ! i \<noteq> transactions s ! i
              \<longrightarrow> findOne (transactions s) (str tf) = Some (transactions s ! i)))
   \<and> orders (snd (checkPaymentStatus now tf s)) = orders s
   \<and> (\<forall>t. findOne (transactions s) (str tf) = Some t
           \<and> (transaction.status t \<noteq> ''pending'' \<or> \<not> expires t < now)
         \<longrightarrow> snd (checkPaymentStatus now tf s) = s)
   \<and> (findOne (transactions s) (str tf) = None \<longrightarrow> snd (checkPaymentStatus now tf s) = s)"
proof -
  consider (same) "snd (checkPaymentStatus now tf s) = s"
    | (expired) t where "findOne (transactions s) (str tf) = Some t"
        "transaction.status t = ''pending''" "expires t < now"
        "snd (checkPaymentStatus now tf s) =
           save_transaction (t\<lparr>transaction.status := ''expired''\<rparr>) s"
    using checkPaymentStatus_transactions [of now tf s] by blast
  then show ?thesis
  proof cases
    case same
    then show ?thesis by simp
  next
    case expired
    have tid: "tid (t\<lparr>transaction.status := ''expired''\<rparr>) = str tf"
      using findOne_tid [OF expired(1)] by simp
    have nth: "\<And>i. i < length (transactions s) \<Longrightarrow>
        replace_first (t\<lparr>transaction.status := ''expired''\<rparr>) (transactions s) ! i
          = transactions s ! i
        \<or> (transactions s ! i = t
            \<and> replace_first (t\<lparr>transaction.status := ''expired''\<rparr>) (transactions s) ! i
                = t\<lparr>transaction.status := ''expired''\<rparr>)"
      using nth_replace_first [OF expired(1) tid] by blast
    have frame: "\<forall>i < length (transactions s).
         transactions (snd (checkPaymentStatus now tf s)) ! i =
           (transactions s ! i)\<lparr>transaction.status :=
              transaction.status (transactions (snd (checkPaymentStatus now tf s)) ! i)\<rparr>
         \<and> (transactions (snd (checkPaymentStatus now tf s)) ! i \<noteq> transactions s ! i
              \<longrightarrow> findOne (transactions s) (str tf) = Some (transactions s ! i))"
    proof (intro allI impI)
      fix i assume "i < length (transactions s)"
      from nth [OF this] show "transactions (snd (checkPaymentStatus now tf s)) ! i =
           (transactions s ! i)\<lparr>transaction.status :=
              transaction.status (transactions (snd (checkPaymentStatus now tf s)) ! i)\<rparr>
         \<and> (transactions (snd (checkPaymentStatus now tf s)) ! i \<noteq> transactions s ! i
              \<longrightarrow> findOne (transactions s) (str tf) = Some (transactions s ! i))"
        using expired(1,4) by (elim disjE conjE) simp_all
    qed
    have rest: "length (transactions (snd (checkPaymentStatus now tf s))) = length (transactions s)"
      "orders (snd (checkPaymentStatus now tf s)) = orders s"
      using expired(4) by (simp_all add: length_replace_first)
    show ?thesis
      using frame rest expired(1,2,3) by simp
  qed
qed

text \<open>
  An instance: a read before expiry leaves the sample store as it is; a read after expiry
  changes the status of its transaction and nothing else.
\<close>

theorem checkPaymentStatus_frame_witness:
  "snd (checkPaymentStatus 1700000300000 (Some ''cwlx3k2a9f0abc'') sample_store) = sample_store
   \<and> transactions (snd (checkPaymentStatus 1700000700000 (Some ''cwlx3k2a9f0abc'')
         sample_store)) ! 0 =
       (transactions sample_store ! 0)\<lparr>transaction.status := ''expired''\<rparr>"
proof -
  have fresh: "findOne (transactions sample_store) (str (Some ''cwlx3k2a9f0abc'')) =
        Some sample_transaction
      \<and> (transaction.status sample_transaction \<noteq> ''pending''
          \<or> \<not> expires sample_transaction < 1700000300000)"
    by (simp add: sample_findOne sample_fields)
  note unchanged = checkPaymentStatus_frame [of 1700000300000 "Some ''cwlx3k2a9f0abc''"
      sample_store, THEN conjunct2, THEN conjunct2, THEN conjunct2, THEN conjunct1,
      rule_format, OF fresh]
  have i: "0 < length (transactions sample_store)"
    by (simp add: sample_store_fields)
  have st: "transaction.status (transactions (snd (checkPaymentStatus 1700000700000
      (Some ''cwlx3k2a9f0abc'') sample_store)) ! 0) = ''expired''"
    by (simp add: checkPaymentStatus_def sample_find sample_fields sample_store_fields)
  note frame = checkPaymentStatus_frame [of 1700000700000 "Some ''cwlx3k2a9f0abc''"
      sample_store, THEN conjunct2, THEN conjunct1, rule_format, OF i, THEN conjunct1]
  from unchanged frame st show ?thesis by simp
qed

end
